theory Spec2Isabelle
  imports Complex_Main "HOL-Library.Sublist"
begin

section \<open>Gesture types (src/types/gestures.ts)\<close>

text \<open>
  JavaScript numbers are modelled as real numbers throughout: rounding, overflow to
  Infinity and NaN are outside this model.
\<close>

datatype GestureType = OPEN_PALM | POINT | VICTORY | THREE_COUNT | FIST | UNKNOWN

record GestureState =
  type :: GestureType
  confidence :: real
  timestamp :: real

section \<open>RapidPulseBuffer (src/unnamed/part_001)\<close>

text \<open>
  The interface \<open>StateChangeEvent\<close>. Its field \<open>timestamp\<close> is written
  \<open>eventTimestamp\<close> here, since the record \<open>GestureState\<close> already owns that
  selector name.
\<close>

record StateChangeEvent =
  fromType :: GestureType
  toType :: GestureType
  eventTimestamp :: real

record RapidPulseBuffer =
  buffer :: "StateChangeEvent list"
  lastGesture :: "GestureType option"
  windowMs :: real
  minChanges :: real

text \<open>The constructor: an empty buffer, no last gesture, the two readonly knobs.\<close>

definition newRapidPulseBuffer :: "real \<Rightarrow> real \<Rightarrow> RapidPulseBuffer" where
  "newRapidPulseBuffer w m =
     \<lparr>buffer = [], lastGesture = None, windowMs = w, minChanges = m\<rparr>"

definition RAPID_PULSE_WINDOW_MS :: real where
  "RAPID_PULSE_WINDOW_MS = 1500"

definition RAPID_PULSE_MIN_CHANGES :: real where
  "RAPID_PULSE_MIN_CHANGES = 3"

definition cleanOldEvents :: "real \<Rightarrow> RapidPulseBuffer \<Rightarrow> RapidPulseBuffer" where
  "cleanOldEvents currentTimestamp s =
     (let cutoffTime = currentTimestamp - windowMs s
      in s\<lparr>buffer := filter (\<lambda>event. eventTimestamp event \<ge> cutoffTime) (buffer s)\<rparr>)"

definition addGesture :: "GestureState \<Rightarrow> RapidPulseBuffer \<Rightarrow> RapidPulseBuffer" where
  "addGesture gesture s =
     (let currentType = type gesture;
          s1 = (case lastGesture s of
                  None \<Rightarrow> s
                | Some lg \<Rightarrow>
                    if lg \<noteq> currentType
                    then cleanOldEvents (timestamp gesture)
                           (s\<lparr>buffer := buffer s @
                                [\<lparr>fromType = lg, toType = currentType,
                                  eventTimestamp = timestamp gesture\<rparr>]\<rparr>)
                    else s)
      in s1\<lparr>lastGesture := Some currentType\<rparr>)"

definition reset :: "RapidPulseBuffer \<Rightarrow> RapidPulseBuffer" where
  "reset s = s\<lparr>buffer := [], lastGesture := None\<rparr>"

text \<open>
  One iteration of the \<open>for (const event of this.buffer)\<close> loop; the loop state is
  the pair \<open>(alternationCount, lastRelevantType)\<close>.
\<close>

definition countStep :: "nat \<times> GestureType option \<Rightarrow> StateChangeEvent \<Rightarrow> nat \<times> GestureType option" where
  "countStep acc event =
     (let isRelevantFrom = (fromType event = OPEN_PALM \<or> fromType event = FIST);
          isRelevantTo = (toType event = OPEN_PALM \<or> toType event = FIST)
      in if isRelevantFrom \<and> isRelevantTo
         then (if snd acc = None \<or> snd acc \<noteq> Some (toType event)
               then (fst acc + 1, Some (toType event))
               else acc)
         else acc)"

definition alternationCount :: "StateChangeEvent list \<Rightarrow> nat" where
  "alternationCount evs = fst (foldl countStep (0, None) evs)"

text \<open>\<open>detectRapidPulse\<close> returns its boolean together with the detector's new state.\<close>

definition detectRapidPulse :: "RapidPulseBuffer \<Rightarrow> bool \<times> RapidPulseBuffer" where
  "detectRapidPulse s =
     (if real (length (buffer s)) < minChanges s then (False, s)
      else if real (alternationCount (buffer s)) \<ge> minChanges s then (True, reset s)
      else (False, s))"

text \<open>Feeding a sequence of gestures, one \<open>addGesture\<close> call each, in order.\<close>

definition feed :: "GestureState list \<Rightarrow> RapidPulseBuffer \<Rightarrow> RapidPulseBuffer" where
  "feed gs s = foldl (\<lambda>st g. addGesture g st) s gs"

definition gst :: "GestureType \<Rightarrow> real \<Rightarrow> GestureState" where
  "gst ty t = \<lparr>type = ty, confidence = 1, timestamp = t\<rparr>"

text \<open>
  The transitions of a gesture sequence, as the data model describes them: one
  \<open>StateChangeEvent\<close> for each gesture whose category differs from the category
  seen just before it (\<open>l\<close> is the category seen before the sequence starts). This
  is the reference against which the buffer kept by the code is compared.
\<close>

definition changeEvent :: "GestureType \<Rightarrow> GestureState \<Rightarrow> StateChangeEvent" where
  "changeEvent lg g = \<lparr>fromType = lg, toType = type g, eventTimestamp = timestamp g\<rparr>"

fun transitions :: "GestureType option \<Rightarrow> GestureState list \<Rightarrow> StateChangeEvent list" where
  "transitions l [] = []"
| "transitions l (g # gs) =
     (case l of None \<Rightarrow> [] | Some lg \<Rightarrow> if lg \<noteq> type g then [changeEvent lg g] else [])
     @ transitions (Some (type g)) gs"

section \<open>GestureClassifier (src/mediapipe/GestureClassifier.ts)\<close>

text \<open>
  A MediaPipe \<open>NormalizedLandmark\<close> with its coordinates \<open>x\<close>, \<open>y\<close>, \<open>z\<close>. The
  selectors carry a prefix: one-letter selector names would capture the variables of
  every later statement.
\<close>

record NormalizedLandmark =
  lm_x :: real
  lm_y :: real
  lm_z :: real

text \<open>The enum \<open>FingerLandmark\<close>: indices into the landmark array.\<close>

definition WRIST :: nat where "WRIST = 0"
definition THUMB_CMC :: nat where "THUMB_CMC = 1"
definition THUMB_MCP :: nat where "THUMB_MCP = 2"
definition THUMB_IP :: nat where "THUMB_IP = 3"
definition THUMB_TIP :: nat where "THUMB_TIP = 4"
definition INDEX_MCP :: nat where "INDEX_MCP = 5"
definition INDEX_PIP :: nat where "INDEX_PIP = 6"
definition INDEX_DIP :: nat where "INDEX_DIP = 7"
definition INDEX_TIP :: nat where "INDEX_TIP = 8"
definition MIDDLE_MCP :: nat where "MIDDLE_MCP = 9"
definition MIDDLE_PIP :: nat where "MIDDLE_PIP = 10"
definition MIDDLE_DIP :: nat where "MIDDLE_DIP = 11"
definition MIDDLE_TIP :: nat where "MIDDLE_TIP = 12"
definition RING_MCP :: nat where "RING_MCP = 13"
definition RING_PIP :: nat where "RING_PIP = 14"
definition RING_DIP :: nat where "RING_DIP = 15"
definition RING_TIP :: nat where "RING_TIP = 16"
definition PINKY_MCP :: nat where "PINKY_MCP = 17"
definition PINKY_PIP :: nat where "PINKY_PIP = 18"
definition PINKY_DIP :: nat where "PINKY_DIP = 19"
definition PINKY_TIP :: nat where "PINKY_TIP = 20"

text \<open>
  The private helpers are only called by \<open>classify\<close>, after it has checked that the
  array holds exactly 21 landmarks, so every index they read is in range.
\<close>

definition isFingerExtended :: "NormalizedLandmark list \<Rightarrow> nat \<Rightarrow> nat \<Rightarrow> bool" where
  "isFingerExtended landmarks tipIndex pipIndex =
     (let tip = landmarks ! tipIndex; pip = landmarks ! pipIndex
      in lm_y tip < lm_y pip)"

definition isThumbExtended :: "NormalizedLandmark list \<Rightarrow> bool" where
  "isThumbExtended landmarks =
     (let tip = landmarks ! THUMB_TIP;
          mcp = landmarks ! THUMB_MCP;
          tipDistance = \<bar>lm_x tip - lm_x (landmarks ! WRIST)\<bar>;
          mcpDistance = \<bar>lm_x mcp - lm_x (landmarks ! WRIST)\<bar>
      in tipDistance > mcpDistance * 1.3)"

definition countExtendedFingers :: "NormalizedLandmark list \<Rightarrow> nat" where
  "countExtendedFingers landmarks =
     (let count = 0;
          count = (if isFingerExtended landmarks INDEX_TIP INDEX_PIP then count + 1 else count);
          count = (if isFingerExtended landmarks MIDDLE_TIP MIDDLE_PIP then count + 1 else count);
          count = (if isFingerExtended landmarks RING_TIP RING_PIP then count + 1 else count);
          count = (if isFingerExtended landmarks PINKY_TIP PINKY_PIP then count + 1 else count);
          count = (if isThumbExtended landmarks then count + 1 else count)
      in count)"

definition isOnlyIndexExtended :: "NormalizedLandmark list \<Rightarrow> bool" where
  "isOnlyIndexExtended landmarks =
     (let indexExtended = isFingerExtended landmarks INDEX_TIP INDEX_PIP;
          middleExtended = isFingerExtended landmarks MIDDLE_TIP MIDDLE_PIP;
          ringExtended = isFingerExtended landmarks RING_TIP RING_PIP;
          pinkyExtended = isFingerExtended landmarks PINKY_TIP PINKY_PIP
      in indexExtended \<and> \<not> middleExtended \<and> \<not> ringExtended \<and> \<not> pinkyExtended)"

definition isIndexAndMiddleExtended :: "NormalizedLandmark list \<Rightarrow> bool" where
  "isIndexAndMiddleExtended landmarks =
     (let indexExtended = isFingerExtended landmarks INDEX_TIP INDEX_PIP;
          middleExtended = isFingerExtended landmarks MIDDLE_TIP MIDDLE_PIP;
          ringExtended = isFingerExtended landmarks RING_TIP RING_PIP;
          pinkyExtended = isFingerExtended landmarks PINKY_TIP PINKY_PIP
      in indexExtended \<and> middleExtended \<and> \<not> ringExtended \<and> \<not> pinkyExtended)"

definition isIndexMiddleRingExtended :: "NormalizedLandmark list \<Rightarrow> bool" where
  "isIndexMiddleRingExtended landmarks =
     (let indexExtended = isFingerExtended landmarks INDEX_TIP INDEX_PIP;
          middleExtended = isFingerExtended landmarks MIDDLE_TIP MIDDLE_PIP;
          ringExtended = isFingerExtended landmarks RING_TIP RING_PIP;
          pinkyExtended = isFingerExtended landmarks PINKY_TIP PINKY_PIP
      in indexExtended \<and> middleExtended \<and> ringExtended \<and> \<not> pinkyExtended)"

text \<open>
  \<open>classify\<close>. The argument is \<open>None\<close> for a null landmark array; \<open>now\<close> is the
  value \<open>Date.now()\<close> returns during the call.
\<close>

definition classify :: "NormalizedLandmark list option \<Rightarrow> real \<Rightarrow> GestureState" where
  "classify lms now =
     (case lms of
        None \<Rightarrow> \<lparr>type = UNKNOWN, confidence = 0, timestamp = now\<rparr>
      | Some landmarks \<Rightarrow>
          if length landmarks \<noteq> 21
          then \<lparr>type = UNKNOWN, confidence = 0, timestamp = now\<rparr>
          else
            (let extendedFingers = countExtendedFingers landmarks
             in if extendedFingers = 5
                then \<lparr>type = OPEN_PALM, confidence = 1.0, timestamp = now\<rparr>
                else if extendedFingers = 1 \<and> isOnlyIndexExtended landmarks
                then \<lparr>type = POINT, confidence = 0.9, timestamp = now\<rparr>
                else if extendedFingers = 2 \<and> isIndexAndMiddleExtended landmarks
                then \<lparr>type = VICTORY, confidence = 0.95, timestamp = now\<rparr>
                else if extendedFingers = 3 \<and> isIndexMiddleRingExtended landmarks
                then \<lparr>type = THREE_COUNT, confidence = 0.9, timestamp = now\<rparr>
                else if extendedFingers \<le> 1 \<and> \<not> isOnlyIndexExtended landmarks
                then \<lparr>type = FIST, confidence = 0.95, timestamp = now\<rparr>
                else \<lparr>type = UNKNOWN, confidence = 0.5, timestamp = now\<rparr>))"

definition lm :: "real \<Rightarrow> real \<Rightarrow> NormalizedLandmark" where
  "lm a b = \<lparr>lm_x = a, lm_y = b, lm_z = 0\<rparr>"

text \<open>
  A hand whose five tips (indices 4, 8, 12, 16, 20) all lie above every other joint,
  with the thumb tip straight above the wrist (same \<open>x\<close>).
\<close>

definition raisedTipsHand :: "NormalizedLandmark list" where
  "raisedTipsHand =
     [lm 0.5 0.9, lm 0.5 0.8, lm 0.5 0.7, lm 0.5 0.6, lm 0.5 0.2,
      lm 0.5 0.6, lm 0.5 0.5, lm 0.5 0.4, lm 0.5 0.2,
      lm 0.5 0.6, lm 0.5 0.5, lm 0.5 0.4, lm 0.5 0.2,
      lm 0.5 0.6, lm 0.5 0.5, lm 0.5 0.4, lm 0.5 0.2,
      lm 0.5 0.6, lm 0.5 0.5, lm 0.5 0.4, lm 0.5 0.2]"

text \<open>The same hand with the thumb spread sideways, away from the wrist.\<close>

definition openHand :: "NormalizedLandmark list" where
  "openHand =
     [lm 0.5 0.9, lm 0.45 0.8, lm 0.4 0.7, lm 0.3 0.6, lm 0.2 0.5,
      lm 0.5 0.6, lm 0.5 0.5, lm 0.5 0.4, lm 0.5 0.2,
      lm 0.5 0.6, lm 0.5 0.5, lm 0.5 0.4, lm 0.5 0.2,
      lm 0.5 0.6, lm 0.5 0.5, lm 0.5 0.4, lm 0.5 0.2,
      lm 0.5 0.6, lm 0.5 0.5, lm 0.5 0.4, lm 0.5 0.2]"

section \<open>The vector library (three.js), as far as the engine uses it\<close>

text \<open>
  \<open>THREE.Vector3\<close> and \<open>THREE.Box3\<close> belong to the three.js library, not to this
  repository; the operations below follow the library's documented behaviour. The
  coordinates \<open>x\<close>, \<open>y\<close>, \<open>z\<close> are the selectors \<open>vx\<close>, \<open>vy\<close>, \<open>vz\<close>; the
  methods \<open>add\<close>, \<open>sub\<close>, \<open>length\<close> and \<open>normalize\<close> carry the suffix
  \<open>V\<close>. The library updates vectors in place; here every operation returns the
  new vector.
\<close>

record Vector3 =
  vx :: real
  vy :: real
  vz :: real

definition vec :: "real \<Rightarrow> real \<Rightarrow> real \<Rightarrow> Vector3" where
  "vec a b c = \<lparr>vx = a, vy = b, vz = c\<rparr>"

definition addV :: "Vector3 \<Rightarrow> Vector3 \<Rightarrow> Vector3" where
  "addV a b = vec (vx a + vx b) (vy a + vy b) (vz a + vz b)"

definition subV :: "Vector3 \<Rightarrow> Vector3 \<Rightarrow> Vector3" where
  "subV a b = vec (vx a - vx b) (vy a - vy b) (vz a - vz b)"

definition multiplyScalar :: "Vector3 \<Rightarrow> real \<Rightarrow> Vector3" where
  "multiplyScalar a k = vec (vx a * k) (vy a * k) (vz a * k)"

definition lengthV :: "Vector3 \<Rightarrow> real" where
  "lengthV a = sqrt (vx a * vx a + vy a * vy a + vz a * vz a)"

text \<open>\<open>normalize\<close> is \<open>divideScalar(length() || 1)\<close>: the zero vector stays zero.\<close>

definition normalizeV :: "Vector3 \<Rightarrow> Vector3" where
  "normalizeV a =
     (let l = (if lengthV a = 0 then 1 else lengthV a)
      in vec (vx a / l) (vy a / l) (vz a / l))"

definition crossVectors :: "Vector3 \<Rightarrow> Vector3 \<Rightarrow> Vector3" where
  "crossVectors a b =
     vec (vy a * vz b - vz a * vy b) (vz a * vx b - vx a * vz b) (vx a * vy b - vy a * vx b)"

text \<open>\<open>THREE.Box3\<close>; its fields \<open>min\<close> and \<open>max\<close> are \<open>boxMin\<close> and \<open>boxMax\<close>.\<close>

record Box3 =
  boxMin :: Vector3
  boxMax :: Vector3

definition isEmpty :: "Box3 \<Rightarrow> bool" where
  "isEmpty b \<longleftrightarrow>
     vx (boxMax b) < vx (boxMin b) \<or> vy (boxMax b) < vy (boxMin b) \<or> vz (boxMax b) < vz (boxMin b)"

definition getCenter :: "Box3 \<Rightarrow> Vector3" where
  "getCenter b = (if isEmpty b then vec 0 0 0 else multiplyScalar (addV (boxMin b) (boxMax b)) 0.5)"

definition expandByScalar :: "Box3 \<Rightarrow> real \<Rightarrow> Box3" where
  "expandByScalar b k =
     \<lparr>boxMin = addV (boxMin b) (vec (- k) (- k) (- k)), boxMax = addV (boxMax b) (vec k k k)\<rparr>"

section \<open>ParticleSystem (src/unnamed/part_006)\<close>

text \<open>
  The environment is explicit. Every operation that calls \<open>Math.random()\<close> takes a
  function \<open>rs\<close>: \<open>rs k\<close> is the value the \<open>k\<close>-th call made during that operation
  returns (counting from 0). \<open>Math.random()\<close> returns values in \<open>[0, 1)\<close>; theorems
  that need this say so. \<open>updateIdleState\<close> reads \<open>Date.now()\<close> once for each
  particle; \<open>now i\<close> is the value read for particle \<open>i\<close>.

  The rendering objects (geometry, material, points, glow texture) are not modelled:
  the engine only copies the particle positions into them.
\<close>

record TextPoint =
  px :: real
  py :: real
  pz :: real

record Particle =
  current :: Vector3
  target :: Vector3
  velocity :: Vector3
  idleOffset :: Vector3
  color :: "real \<times> real \<times> real"
  speed :: real
  orbitAxis :: Vector3

record ParticleSystem =
  particles :: "Particle list"
  isIdle :: bool
  isExploding :: bool
  explosionTime :: real
  isDispersing :: bool
  dispersionTime :: real
  isOrbiting :: bool
  orbitBounds :: "Box3 option"
  orbitTime :: real

datatype JsError = Error_Failed_to_get_2D_context | TypeError

definition PARTICLE_COUNT :: nat where "PARTICLE_COUNT = 3000"
definition PARTICLE_IDLE_RADIUS :: real where "PARTICLE_IDLE_RADIUS = 80"
definition PARTICLE_DRIFT_SPEED :: real where "PARTICLE_DRIFT_SPEED = 0.05"
definition PARTICLE_MORPH_SPEED :: real where "PARTICLE_MORPH_SPEED = 0.08"
definition PARTICLE_JITTER_AMOUNT :: real where "PARTICLE_JITTER_AMOUNT = 0.08"
definition EXPLOSION_DURATION :: real where "EXPLOSION_DURATION = 0.5"
definition DISPERSION_DURATION :: real where "DISPERSION_DURATION = 0.3"

text \<open>A \<open>for\<close> loop over the particles that also knows each particle's index.\<close>

definition forEachParticle :: "(nat \<Rightarrow> Particle \<Rightarrow> Particle) \<Rightarrow> Particle list \<Rightarrow> Particle list" where
  "forEachParticle f ps = map (\<lambda>i. f i (ps ! i)) [0..<length ps]"

subsection \<open>Construction\<close>

text \<open>
  One iteration of the loop in \<open>initializeParticles\<close>; it makes 14 calls of
  \<open>Math.random()\<close>, the first of them being call number \<open>k\<close>.
\<close>

definition initParticle :: "(nat \<Rightarrow> real) \<Rightarrow> nat \<Rightarrow> Particle" where
  "initParticle rs k =
     (let theta = rs k * pi * 2;
          phi = arccos ((rs (k + 1) * 2) - 1);
          radius = rs (k + 2) * PARTICLE_IDLE_RADIUS;
          x = radius * sin phi * cos theta;
          y = radius * sin phi * sin theta;
          z = radius * cos phi;
          colorChoice = rs (k + 3);
          particleColor =
            (if colorChoice < 0.3
             then (rs (k + 4) * 0.4, 0.8 + rs (k + 5) * 0.2, 0.8 + rs (k + 6) * 0.2)
             else if colorChoice < 0.5
             then (rs (k + 4) * 0.2, 0.5 + rs (k + 5) * 0.3, 0.8 + rs (k + 6) * 0.2)
             else if colorChoice < 0.7
             then (0.6 + rs (k + 4) * 0.4, rs (k + 5) * 0.4, 0.8 + rs (k + 6) * 0.2)
             else if colorChoice < 0.85
             then (0.8 + rs (k + 4) * 0.2, 0.2 + rs (k + 5) * 0.3, 0.5 + rs (k + 6) * 0.3)
             else (rs (k + 4) * 0.3, 0.8 + rs (k + 5) * 0.2, 0.5 + rs (k + 6) * 0.3));
          speed = 0.5 + rs (k + 7) * 1.0;
          orbitAxis = normalizeV (vec (rs (k + 8) * 2 - 1) (rs (k + 9) * 0.6 - 0.3) (rs (k + 10) * 2 - 1))
      in \<lparr>current = vec x y z,
          target = vec x y z,
          velocity = vec 0 0 0,
          idleOffset = normalizeV (vec (rs (k + 11) * 2 - 1) (rs (k + 12) * 2 - 1) (rs (k + 13) * 2 - 1)),
          color = particleColor,
          speed = speed,
          orbitAxis = orbitAxis\<rparr>)"

definition initializeParticles :: "(nat \<Rightarrow> real) \<Rightarrow> nat \<Rightarrow> Particle list" where
  "initializeParticles rs count = map (\<lambda>i. initParticle rs (14 * i)) [0..<count]"

text \<open>
  The constructor. \<open>has2dContext\<close> tells whether \<open>canvas.getContext('2d')\<close> yields a
  context; without one \<open>createGlowTexture\<close> throws.
\<close>

definition newParticleSystem :: "(nat \<Rightarrow> real) \<Rightarrow> nat \<Rightarrow> bool \<Rightarrow> JsError + ParticleSystem" where
  "newParticleSystem rs particleCount has2dContext =
     (if \<not> has2dContext then Inl Error_Failed_to_get_2D_context
      else Inr \<lparr>particles = initializeParticles rs particleCount,
                isIdle = True,
                isExploding = False,
                explosionTime = 0,
                isDispersing = False,
                dispersionTime = 0,
                isOrbiting = False,
                orbitBounds = None,
                orbitTime = 0\<rparr>)"

subsection \<open>setTarget\<close>

text \<open>
  The Fisher-Yates loop \<open>for (i = length - 1; i > 0; i--)\<close>; \<open>d\<close> is the number of
  the next \<open>Math.random()\<close> call. With draws in \<open>[0, 1)\<close> the index \<open>j\<close> is at most
  \<open>i\<close>, so both reads are in range.
\<close>

fun fisherYates :: "(nat \<Rightarrow> real) \<Rightarrow> nat \<Rightarrow> nat \<Rightarrow> nat list \<Rightarrow> nat list" where
  "fisherYates rs d 0 shuffledIndices = shuffledIndices"
| "fisherYates rs d (Suc i') shuffledIndices =
     (let i = Suc i';
          j = nat \<lfloor>rs d * real (i + 1)\<rfloor>
      in fisherYates rs (d + 1) i'
           (shuffledIndices[i := shuffledIndices ! j, j := shuffledIndices ! i]))"

text \<open>
  \<open>points[i % targetCount]\<close>: with no points, \<open>i % 0\<close> is NaN and the read yields
  \<open>undefined\<close>, here \<open>None\<close>.
\<close>

definition pointAt :: "TextPoint list \<Rightarrow> nat \<Rightarrow> TextPoint option" where
  "pointAt points i = (if length points = 0 then None else Some (points ! (i mod length points)))"

text \<open>
  The assignment loop over \<open>i = 0, 1, ...\<close>; \<open>base\<close> is the number of draws the shuffle
  has used. Reading \<open>point.x\<close> of an undefined point throws a TypeError, which ends
  the loop with the particles assigned so far.
\<close>

fun assignTargets ::
  "(nat \<Rightarrow> real) \<Rightarrow> nat \<Rightarrow> TextPoint list \<Rightarrow> nat list \<Rightarrow> nat list \<Rightarrow> Particle list
     \<Rightarrow> JsError option \<times> Particle list" where
  "assignTargets rs base points shuffledIndices [] ps = (None, ps)"
| "assignTargets rs base points shuffledIndices (i # is) ps =
     (let particleIndex = shuffledIndices ! i
      in case pointAt points i of
           None \<Rightarrow> (Some TypeError, ps)
         | Some point \<Rightarrow>
             (let layer = i div length points;
                  jitter = real layer * 0.05;
                  d = base + 3 * i;
                  p = ps ! particleIndex
              in assignTargets rs base points shuffledIndices is
                   (ps[particleIndex :=
                         p\<lparr>target := vec (px point + (rs d - 0.5) * jitter)
                                        (py point + (rs (d + 1) - 0.5) * jitter)
                                        (pz point + (rs (d + 2) - 0.5) * jitter)\<rparr>])))"

text \<open>
  The vector that the loop body writes into \<open>target\<close> at loop index \<open>i\<close> when there
  are points: the anchor point \<open>points[i % targetCount]\<close> displaced on each axis by
  \<open>(Math.random() - 0.5) * jitter\<close>. It names the argument of \<open>target.set\<close> in
  \<open>assignTargets\<close>, to state which target a particle ends up with.
\<close>

definition assignedTarget :: "(nat \<Rightarrow> real) \<Rightarrow> nat \<Rightarrow> TextPoint list \<Rightarrow> nat \<Rightarrow> Vector3" where
  "assignedTarget rs base points i =
     (let point = points ! (i mod length points);
          layer = i div length points;
          jitter = real layer * 0.05;
          d = base + 3 * i
      in vec (px point + (rs d - 0.5) * jitter)
             (py point + (rs (d + 1) - 0.5) * jitter)
             (pz point + (rs (d + 2) - 0.5) * jitter))"

text \<open>
  \<open>setTarget\<close> returns the exception it ended with, if any, and the state it left
  behind: the idle flag is cleared before anything can throw.
\<close>

definition setTarget ::
  "(nat \<Rightarrow> real) \<Rightarrow> TextPoint list \<Rightarrow> ParticleSystem \<Rightarrow> JsError option \<times> ParticleSystem" where
  "setTarget rs points s =
     (let s1 = s\<lparr>isIdle := False\<rparr>;
          n = length (particles s1);
          shuffledIndices = fisherYates rs 0 (n - 1) [0..<n];
          (err, ps) = assignTargets rs (n - 1) points shuffledIndices [0..<n] (particles s1)
      in (err, s1\<lparr>particles := ps\<rparr>))"

subsection \<open>Mode triggers\<close>

definition setIdleState :: "ParticleSystem \<Rightarrow> ParticleSystem" where
  "setIdleState s =
     s\<lparr>isIdle := True,
       isExploding := False,
       isDispersing := False,
       isOrbiting := False,
       orbitBounds := None,
       particles := map (\<lambda>particle. particle\<lparr>target := current particle\<rparr>) (particles s)\<rparr>"

definition disperse :: "(nat \<Rightarrow> real) \<Rightarrow> ParticleSystem \<Rightarrow> ParticleSystem" where
  "disperse rs s =
     s\<lparr>isDispersing := True,
       isIdle := False,
       isExploding := False,
       dispersionTime := 0,
       particles := forEachParticle
         (\<lambda>i particle.
            let randomDirection =
                  normalizeV (vec (rs (3 * i) * 2 - 1) (rs (3 * i + 1) * 2 - 1) (rs (3 * i + 2) * 2 - 1))
            in particle\<lparr>velocity := multiplyScalar randomDirection (3.0 * speed particle)\<rparr>)
         (particles s)\<rparr>"

definition explode :: "ParticleSystem \<Rightarrow> ParticleSystem" where
  "explode s =
     s\<lparr>isExploding := True,
       isIdle := False,
       explosionTime := 0,
       particles := map
         (\<lambda>particle.
            let direction = normalizeV (current particle)
            in particle\<lparr>velocity := multiplyScalar direction (5.0 * speed particle)\<rparr>)
         (particles s)\<rparr>"

subsection \<open>orbitAroundBounds\<close>

text \<open>
  One iteration of the placement loop for particle \<open>i\<close>; \<open>d\<close> is the number of the
  next \<open>Math.random()\<close> call, and the result carries the number after the iteration,
  since the three strategies draw 0, 2 or 1 values before the six common draws.
  With \<open>particlesPerStrategy = 0\<close> the JavaScript strategy is NaN, which selects the
  last branch; \<open>orbitAroundBounds\<close> below never runs the iteration in that case.
\<close>

definition orbitParticle ::
  "(nat \<Rightarrow> real) \<Rightarrow> nat \<Rightarrow> nat \<Rightarrow> Vector3 \<Rightarrow> nat \<Rightarrow> Particle \<Rightarrow> Particle \<times> nat" where
  "orbitParticle rs d particlesPerStrategy center i particle =
     (let strategyCount = 3;
          strategy = (if particlesPerStrategy = 0 then None
                      else Some ((i div particlesPerStrategy) mod strategyCount));
          (theta, phi, d1) =
            (if strategy = Some 0 then
               (let goldenRatio = (1 + sqrt 5) / 2
                in (2 * pi * real (i mod particlesPerStrategy) / goldenRatio,
                    arccos (1 - 2 * (real (i mod particlesPerStrategy) + 0.5) / real particlesPerStrategy),
                    d))
             else if strategy = Some 1 then
               (rs d * 2 * pi, arccos (2 * rs (d + 1) - 1), d + 2)
             else
               (let layer = real (i mod particlesPerStrategy) / real particlesPerStrategy
                in ((rs d + real i) * 2 * pi * 0.618034, pi * layer, d + 1)));
          theta = theta + (rs d1 - 0.5) * 0.8;
          phi = phi + (rs (d1 + 1) - 0.5) * 0.8;
          baseRadius = 20;
          radiusVariation = (rs (d1 + 2) - 0.5) * 12;
          radius = baseRadius + radiusVariation;
          x = vx center + radius * sin phi * cos theta;
          y = vy center + radius * sin phi * sin theta;
          z = vz center + radius * cos phi;
          radialDir = normalizeV (subV (vec x y z) center);
          tangent = normalizeV (crossVectors radialDir (orbitAxis particle));
          tangent = (if lengthV tangent < 0.01
                     then normalizeV (crossVectors radialDir (vec 1 0 0))
                     else tangent);
          randomOffset = vec ((rs (d1 + 3) - 0.5) * 0.3) ((rs (d1 + 4) - 0.5) * 0.3) ((rs (d1 + 5) - 0.5) * 0.3);
          tangent = normalizeV (addV tangent randomOffset)
      in (particle\<lparr>current := vec x y z,
                    target := vec x y z,
                    velocity := multiplyScalar tangent (0.6 * speed particle)\<rparr>,
          d1 + 6))"

fun orbitParticles ::
  "(nat \<Rightarrow> real) \<Rightarrow> nat \<Rightarrow> nat \<Rightarrow> Vector3 \<Rightarrow> nat \<Rightarrow> Particle list \<Rightarrow> Particle list" where
  "orbitParticles rs d particlesPerStrategy center i [] = []"
| "orbitParticles rs d particlesPerStrategy center i (particle # rest) =
     (let (particle', d') = orbitParticle rs d particlesPerStrategy center i particle
      in particle' # orbitParticles rs d' particlesPerStrategy center (i + 1) rest)"

text \<open>
  \<open>orbitAroundBounds\<close>. With one or two particles \<open>particlesPerStrategy\<close> is 0 and
  the loop divides by it: \<open>layer\<close> and \<open>phi\<close> are NaN, and NaN is written into the
  position, the target and the velocity of every particle. A state with NaN coordinates
  has no counterpart among the real-valued states of this model, so the result is
  \<open>None\<close> there: such a run leaves the model. With no particle the loop does not
  run, and with three or more every quotient has a non-zero divisor.
\<close>

definition orbitAroundBounds ::
  "(nat \<Rightarrow> real) \<Rightarrow> Box3 \<Rightarrow> ParticleSystem \<Rightarrow> ParticleSystem option" where
  "orbitAroundBounds rs bounds s =
     (let center = getCenter bounds;
          strategyCount = 3;
          particlesPerStrategy = length (particles s) div strategyCount
      in if particles s \<noteq> [] \<and> particlesPerStrategy = 0 then None
         else Some (s\<lparr>isOrbiting := True,
                      isIdle := False,
                      isExploding := False,
                      isDispersing := False,
                      orbitBounds := Some (expandByScalar bounds 15),
                      orbitTime := 0,
                      particles := orbitParticles rs 0 particlesPerStrategy center 0 (particles s)\<rparr>))"

subsection \<open>The per-tick update routines\<close>

definition updateIdleState :: "(nat \<Rightarrow> real) \<Rightarrow> real \<Rightarrow> ParticleSystem \<Rightarrow> ParticleSystem" where
  "updateIdleState now deltaTime s =
     s\<lparr>particles := forEachParticle
         (\<lambda>i particle.
            let time = now i * 0.001;
                drift = multiplyScalar (idleOffset particle)
                          (sin (time + vx (current particle)) * PARTICLE_DRIFT_SPEED * speed particle);
                moved = addV (current particle) drift
            in particle\<lparr>current :=
                 (if lengthV moved > PARTICLE_IDLE_RADIUS
                  then multiplyScalar (normalizeV moved) PARTICLE_IDLE_RADIUS
                  else moved)\<rparr>)
         (particles s)\<rparr>"

text \<open>The local constant \<open>decayFactor\<close> of \<open>updateDispersion\<close> and \<open>updateExplosion\<close>.\<close>

definition decayFactor :: "real \<Rightarrow> real \<Rightarrow> real" where
  "decayFactor elapsed duration = max 0 (1 - elapsed / duration)"

definition updateDispersion :: "real \<Rightarrow> ParticleSystem \<Rightarrow> ParticleSystem" where
  "updateDispersion deltaTime s =
     (let dispersionTime' = dispersionTime s + deltaTime;
          decay = decayFactor dispersionTime' DISPERSION_DURATION;
          s1 = s\<lparr>dispersionTime := dispersionTime',
                 particles := map
                   (\<lambda>particle.
                      let velocityWithDecay = multiplyScalar (velocity particle) (decay * deltaTime * 60)
                      in particle\<lparr>current := addV (current particle) velocityWithDecay\<rparr>)
                   (particles s)\<rparr>
      in if dispersionTime' \<ge> DISPERSION_DURATION
         then s1\<lparr>isDispersing := False, isIdle := True\<rparr>
         else s1)"

definition updateExplosion :: "real \<Rightarrow> ParticleSystem \<Rightarrow> ParticleSystem" where
  "updateExplosion deltaTime s =
     (let explosionTime' = explosionTime s + deltaTime;
          decay = decayFactor explosionTime' EXPLOSION_DURATION;
          s1 = s\<lparr>explosionTime := explosionTime',
                 particles := map
                   (\<lambda>particle.
                      let velocityWithDecay = multiplyScalar (velocity particle) (decay * deltaTime)
                      in particle\<lparr>current := addV (current particle) velocityWithDecay\<rparr>)
                   (particles s)\<rparr>
      in if explosionTime' \<ge> EXPLOSION_DURATION
         then s1\<lparr>isExploding := False\<rparr>
         else s1)"

text \<open>
  The body of the loop of \<open>updateOrbiting\<close> for one particle, with the centre of the
  orbit bounds, the orbit time already advanced, and the three jitter draws.
\<close>

definition radialSpeed :: "real \<Rightarrow> real \<Rightarrow> real" where
  "radialSpeed distance particleSpeed =
     (let targetDistance = 20
      in (if distance > targetDistance then - 0.5 else 0.5) * particleSpeed)"

definition orbitVelocity :: "Vector3 \<Rightarrow> real \<Rightarrow> Particle \<Rightarrow> Vector3" where
  "orbitVelocity center orbitTime' particle =
     (let toCenter = subV center (current particle);
          distance = lengthV toCenter;
          radialDir = subV (current particle) center;
          tangent = normalizeV (crossVectors radialDir (orbitAxis particle));
          tangent = (if lengthV tangent < 0.01
                     then normalizeV (crossVectors radialDir (vec 1 0 0))
                     else tangent);
          wave = sin (orbitTime' * 2 + vx (current particle) * 0.1 + vz (current particle) * 0.1) * 0.3;
          orbitalSpeed = 2.0 * speed particle
      in addV (multiplyScalar tangent orbitalSpeed)
              (multiplyScalar (normalizeV toCenter) (radialSpeed distance (speed particle) + wave)))"

definition orbitStep ::
  "Vector3 \<Rightarrow> real \<Rightarrow> real \<Rightarrow> real \<Rightarrow> real \<Rightarrow> real \<Rightarrow> Particle \<Rightarrow> Particle" where
  "orbitStep center orbitTime' deltaTime r0 r1 r2 particle =
     (let v = orbitVelocity center orbitTime' particle;
          moved = addV (current particle) (multiplyScalar v (deltaTime * 60));
          jitter = vec ((r0 - 0.5) * 0.15) ((r1 - 0.5) * 0.15) ((r2 - 0.5) * 0.15)
      in particle\<lparr>velocity := v, current := addV moved jitter\<rparr>)"

definition updateOrbiting :: "(nat \<Rightarrow> real) \<Rightarrow> real \<Rightarrow> ParticleSystem \<Rightarrow> ParticleSystem" where
  "updateOrbiting rs deltaTime s =
     (case orbitBounds s of
        None \<Rightarrow> s
      | Some bounds \<Rightarrow>
          (let orbitTime' = orbitTime s + deltaTime;
               center = getCenter bounds
           in s\<lparr>orbitTime := orbitTime',
                particles := forEachParticle
                  (\<lambda>i. orbitStep center orbitTime' deltaTime (rs (3 * i)) (rs (3 * i + 1)) (rs (3 * i + 2)))
                  (particles s)\<rparr>))"

text \<open>
  The loop of \<open>interpolateToTarget\<close>. Only a particle within the threshold draws random
  numbers (three of them), so the number \<open>d\<close> of the next draw is threaded through.
\<close>

definition interpolateParticle :: "(nat \<Rightarrow> real) \<Rightarrow> nat \<Rightarrow> Particle \<Rightarrow> Particle" where
  "interpolateParticle rs d particle =
     (let direction = subV (target particle) (current particle);
          distance = lengthV direction
      in if distance > 0.1
         then particle\<lparr>current := addV (current particle)
                 (multiplyScalar direction (PARTICLE_MORPH_SPEED * speed particle))\<rparr>
         else
           (let jitter = vec ((rs d - 0.5) * PARTICLE_JITTER_AMOUNT * speed particle)
                             ((rs (d + 1) - 0.5) * PARTICLE_JITTER_AMOUNT * speed particle)
                             ((rs (d + 2) - 0.5) * PARTICLE_JITTER_AMOUNT * speed particle)
            in particle\<lparr>current := addV (current particle) jitter\<rparr>))"

fun interpolateParticles :: "(nat \<Rightarrow> real) \<Rightarrow> nat \<Rightarrow> Particle list \<Rightarrow> Particle list" where
  "interpolateParticles rs d [] = []"
| "interpolateParticles rs d (particle # rest) =
     interpolateParticle rs d particle #
       interpolateParticles rs
         (if lengthV (subV (target particle) (current particle)) > 0.1 then d else d + 3) rest"

definition interpolateToTarget :: "(nat \<Rightarrow> real) \<Rightarrow> real \<Rightarrow> ParticleSystem \<Rightarrow> ParticleSystem" where
  "interpolateToTarget rs deltaTime s = s\<lparr>particles := interpolateParticles rs 0 (particles s)\<rparr>"

definition update :: "(nat \<Rightarrow> real) \<Rightarrow> (nat \<Rightarrow> real) \<Rightarrow> real \<Rightarrow> ParticleSystem \<Rightarrow> ParticleSystem" where
  "update rs now deltaTime s =
     (if isExploding s then updateExplosion deltaTime s
      else if isDispersing s then updateDispersion deltaTime s
      else if isOrbiting s then updateOrbiting rs deltaTime s
      else if isIdle s then updateIdleState now deltaTime s
      else interpolateToTarget rs deltaTime s)"

subsection \<open>Modes and runs of the engine\<close>

text \<open>
  The engine has four flags and no flag for morphing. \<open>activeMode\<close> names the routine
  that \<open>update\<close> runs, following the order of its \<open>if\<close> chain; morphing is what
  remains when no flag is set.
\<close>

datatype EngineMode = IDLE | MORPHING | EXPLODING | DISPERSING | ORBITING

definition activeMode :: "ParticleSystem \<Rightarrow> EngineMode" where
  "activeMode s =
     (if isExploding s then EXPLODING
      else if isDispersing s then DISPERSING
      else if isOrbiting s then ORBITING
      else if isIdle s then IDLE
      else MORPHING)"

text \<open>
  The states the engine can be in: a constructed engine, and every state one of the
  public methods leaves behind (\<open>setTarget\<close> also when it throws;
  \<open>orbitAroundBounds\<close> when it writes numbers).
\<close>

inductive reachable :: "ParticleSystem \<Rightarrow> bool" where
  constructed: "newParticleSystem rs n True = Inr s \<Longrightarrow> reachable s"
| afterSetTarget: "reachable s \<Longrightarrow> reachable (snd (setTarget rs points s))"
| afterSetIdleState: "reachable s \<Longrightarrow> reachable (setIdleState s)"
| afterDisperse: "reachable s \<Longrightarrow> reachable (disperse rs s)"
| afterExplode: "reachable s \<Longrightarrow> reachable (explode s)"
| afterOrbitAroundBounds:
    "reachable s \<Longrightarrow> orbitAroundBounds rs bounds s = Some s' \<Longrightarrow> reachable s'"
| afterUpdate: "reachable s \<Longrightarrow> reachable (update rs now deltaTime s)"

text \<open>
  Repeated \<open>update\<close> calls with the same \<open>deltaTime\<close>: tick \<open>n\<close> draws its random
  numbers from \<open>rss n\<close> and reads the clock values \<open>nows n\<close>.
\<close>

fun ticks ::
  "(nat \<Rightarrow> nat \<Rightarrow> real) \<Rightarrow> (nat \<Rightarrow> nat \<Rightarrow> real) \<Rightarrow> real \<Rightarrow> nat \<Rightarrow> ParticleSystem \<Rightarrow> ParticleSystem" where
  "ticks rss nows deltaTime 0 s = s"
| "ticks rss nows deltaTime (Suc n) s =
     update (rss n) (nows n) deltaTime (ticks rss nows deltaTime n s)"

text \<open>The local \<open>distance\<close> of \<open>interpolateToTarget\<close>: how far a particle is from its target.\<close>

definition distanceToTarget :: "Particle \<Rightarrow> real" where
  "distanceToTarget particle = lengthV (subV (target particle) (current particle))"

text \<open>\<open>THREE.Vector3.dot\<close>, to speak about the direction of a velocity.\<close>

definition dotV :: "Vector3 \<Rightarrow> Vector3 \<Rightarrow> real" where
  "dotV a b = vx a * vx b + vy a * vy b + vz a * vz b"

subsection \<open>Concrete inputs\<close>

definition halfDraws :: "nat \<Rightarrow> real" where
  "halfDraws k = 1 / 2"

definition zeroClock :: "nat \<Rightarrow> real" where
  "zeroClock i = 0"

definition sameDraws :: "nat \<Rightarrow> nat \<Rightarrow> real" where
  "sameDraws n k = 1 / 2"

definition sameClock :: "nat \<Rightarrow> nat \<Rightarrow> real" where
  "sameClock n i = 0"

text \<open>An idle engine holding one particle at \<open>(1, 0, 0)\<close> with speed multiplier 1.\<close>

definition oneParticle :: Particle where
  "oneParticle =
     \<lparr>current = vec 1 0 0, target = vec 1 0 0, velocity = vec 0 0 0,
      idleOffset = vec 0 1 0, color = (0, 1, 1), speed = 1, orbitAxis = vec 1 0 0\<rparr>"

definition oneParticleSystem :: ParticleSystem where
  "oneParticleSystem =
     \<lparr>particles = [oneParticle], isIdle = True, isExploding = False, explosionTime = 0,
      isDispersing = False, dispersionTime = 0, isOrbiting = False, orbitBounds = None,
      orbitTime = 0\<rparr>"

text \<open>An engine constructed with no particles.\<close>

definition emptyParticleSystem :: ParticleSystem where
  "emptyParticleSystem = projr (newParticleSystem halfDraws 0 True)"

definition originPoint :: TextPoint where
  "originPoint = \<lparr>px = 0, py = 0, pz = 0\<rparr>"

definition nearPoint :: TextPoint where
  "nearPoint = \<lparr>px = 1, py = 0, pz = 0\<rparr>"

text \<open>
  A box centred at the origin, particles 25, 15 and 20 away from that centre, and an
  orbiting engine holding the three.
\<close>

definition textBox :: Box3 where
  "textBox = \<lparr>boxMin = vec (- 10) (- 5) (- 1), boxMax = vec 10 5 1\<rparr>"

definition farParticle :: Particle where
  "farParticle =
     \<lparr>current = vec 0 25 0, target = vec 0 25 0, velocity = vec 0 0 0,
      idleOffset = vec 0 1 0, color = (0, 1, 1), speed = 1, orbitAxis = vec 1 0 0\<rparr>"

definition closeParticle :: Particle where
  "closeParticle =
     \<lparr>current = vec 0 15 0, target = vec 0 15 0, velocity = vec 0 0 0,
      idleOffset = vec 0 1 0, color = (0, 1, 1), speed = 1, orbitAxis = vec 1 0 0\<rparr>"

definition thirdParticle :: Particle where
  "thirdParticle =
     \<lparr>current = vec 20 0 0, target = vec 20 0 0, velocity = vec 0 0 0,
      idleOffset = vec 0 1 0, color = (0, 1, 1), speed = 1, orbitAxis = vec 0 0 1\<rparr>"

definition orbitingSystem :: ParticleSystem where
  "orbitingSystem =
     \<lparr>particles = [farParticle, closeParticle, thirdParticle], isIdle = False, isExploding = False, explosionTime = 0,
      isDispersing = False, dispersionTime = 0, isOrbiting = True,
      orbitBounds = Some (expandByScalar textBox 15), orbitTime = 0\<rparr>"

section \<open>The orchestration hook (src/hooks/useParticleSystem.ts)\<close>

text \<open>
  The effect that runs when the target text changes, reduced to the engine calls it
  makes. \<open>ready\<close> stands for the guard at its top (\<open>isReady\<close> and the three objects
  being present), \<open>fontLoaded\<close> for the generator's font, \<open>bounds\<close> for what
  \<open>getBoundingBox\<close> returns right after the text mesh is created, and
  \<open>boundsAtTimer\<close> for what it returns when the 500 ms timer fires. The result is
  the list of engine calls, the new \<open>prevTargetText\<close> and the error the \<open>catch\<close>
  block records. Scene and mesh handling are left out.
\<close>

definition TEXTS_TO_GENERATE :: "string list" where
  "TEXTS_TO_GENERATE =
     [''SoC'', ''Curiosity'', ''Ingenuity'', ''Deterministic'', ''SP School Of Computing'']"

datatype EngineCall =
    CallDisperse
  | CallExplode
  | CallOrbitAroundBounds Box3
  | CallOrbitAroundBoundsAfter500ms Box3

datatype HookError = Font_not_loaded

definition targetTextEffect ::
  "bool \<Rightarrow> bool \<Rightarrow> Box3 option \<Rightarrow> Box3 option \<Rightarrow> string option \<Rightarrow> string option
     \<Rightarrow> EngineCall list \<times> string option \<times> HookError option" where
  "targetTextEffect ready fontLoaded bounds boundsAtTimer prevTargetText targetText =
     (if \<not> ready then ([], prevTargetText, None)
      else if targetText = prevTargetText then ([], prevTargetText, None)
      else case targetText of
             None \<Rightarrow> ([CallDisperse], targetText, None)
           | Some text \<Rightarrow>
               if text \<notin> set TEXTS_TO_GENERATE then ([], targetText, None)
               else if \<not> fontLoaded then ([], targetText, Some Font_not_loaded)
               else if text = ''SP School Of Computing''
               then (case boundsAtTimer of
                       Some b \<Rightarrow> ([CallExplode, CallOrbitAroundBoundsAfter500ms b], targetText, None)
                     | None \<Rightarrow> ([CallExplode], targetText, None))
               else (case bounds of
                       Some b \<Rightarrow> ([CallOrbitAroundBounds b], targetText, None)
                     | None \<Rightarrow> ([], targetText, None)))"

section \<open>The decaying update routines over numbers with special values\<close>






















section \<open>Properties of the rapid-pulse detector\<close>

lemma feed_Cons: "feed (g # gs) s = feed gs (addGesture g s)"
  by (simp add: feed_def)

lemma feed_Nil: "feed [] s = s"
  by (simp add: feed_def)

lemma windowMs_addGesture: "windowMs (addGesture g s) = windowMs s"
  by (simp add: addGesture_def cleanOldEvents_def Let_def split: option.splits)

lemma lastGesture_addGesture: "lastGesture (addGesture g s) = Some (type g)"
  by (simp add: addGesture_def Let_def)

lemma buffer_addGesture:
  "buffer (addGesture g s) =
     (case lastGesture s of None \<Rightarrow> buffer s
      | Some lg \<Rightarrow> if lg \<noteq> type g
          then filter (\<lambda>e. eventTimestamp e \<ge> timestamp g - windowMs s) (buffer s @ [changeEvent lg g])
          else buffer s)"
  by (simp add: addGesture_def cleanOldEvents_def Let_def changeEvent_def split: option.splits)

lemma buffer_feed_subseq:
  "subseq (buffer (feed gs s)) (buffer s @ transitions (lastGesture s) gs)"
proof (induction gs arbitrary: s)
  case Nil
  show ?case by (simp add: feed_Nil)
next
  case (Cons g gs)
  have step: "subseq (buffer (addGesture g s))
      (buffer s @ (case lastGesture s of None \<Rightarrow> [] | Some lg \<Rightarrow> if lg \<noteq> type g then [changeEvent lg g] else []))"
    by (auto simp: buffer_addGesture split: option.splits)
  have "subseq (buffer (feed gs (addGesture g s)))
          (buffer (addGesture g s) @ transitions (Some (type g)) gs)"
    using Cons.IH [of "addGesture g s"] by (simp add: lastGesture_addGesture)
  also have "subseq \<dots> ((buffer s @ (case lastGesture s of None \<Rightarrow> [] | Some lg \<Rightarrow> if lg \<noteq> type g then [changeEvent lg g] else [])) @ transitions (Some (type g)) gs)"
    using step by (rule list_emb_append_mono) simp
  finally show ?case by (simp add: feed_Cons)
qed

lemma buffer_feed_recent:
  "transitions (lastGesture s) gs \<noteq> [] \<Longrightarrow> e \<in> set (buffer (feed gs s)) \<Longrightarrow>
     eventTimestamp e \<ge> eventTimestamp (last (transitions (lastGesture s) gs)) - windowMs s"
proof (induction gs arbitrary: s)
  case Nil
  then show ?case by simp
next
  case (Cons g gs)
  let ?s' = "addGesture g s"
  show ?case
  proof (cases "transitions (Some (type g)) gs = []")
    case False
    then have "eventTimestamp e \<ge> eventTimestamp (last (transitions (lastGesture ?s') gs)) - windowMs ?s'"
      using Cons.IH [of ?s'] Cons.prems(2) by (simp add: lastGesture_addGesture feed_Cons)
    then show ?thesis using False by (simp add: lastGesture_addGesture windowMs_addGesture)
  next
    case True
    have "subseq (buffer (feed gs ?s')) (buffer ?s' @ transitions (lastGesture ?s') gs)"
      by (rule buffer_feed_subseq)
    then have "set (buffer (feed gs ?s')) \<subseteq> set (buffer ?s')"
      using True list_emb_set [of "(=)" "buffer (feed gs ?s')" "buffer ?s'"] by (auto simp: lastGesture_addGesture)
    then have mem: "e \<in> set (buffer ?s')" using Cons.prems(2) by (auto simp: feed_Cons)
    from Cons.prems(1) True obtain lg where lg: "lastGesture s = Some lg" "lg \<noteq> type g"
      by (auto split: option.splits if_splits)
    show ?thesis using mem lg True
      by (auto simp: buffer_addGesture changeEvent_def split: if_splits)
  qed
qed

lemma detect_needs_length:
  "real (length (buffer s)) < minChanges s \<Longrightarrow> \<not> fst (detectRapidPulse s)"
  by (simp add: detectRapidPulse_def)

lemma minChanges_feed: "minChanges (feed gs s) = minChanges s"
  by (induction gs arbitrary: s) (simp_all add: feed_Nil feed_Cons addGesture_def cleanOldEvents_def Let_def split: option.splits)

text \<open>
  Claim C10. Whenever \<open>detectRapidPulse\<close> returns false, the detector's state (event
  buffer and last gesture included) is exactly what it was before the call.
\<close>

theorem detectRapidPulse_false_unchanged:
  "fst (detectRapidPulse s) = False \<Longrightarrow> snd (detectRapidPulse s) = s"
  by (simp add: detectRapidPulse_def split: if_splits)

theorem detectRapidPulse_false_unchanged_witness:
  "fst (detectRapidPulse (feed [gst OPEN_PALM 0, gst FIST 100, gst POINT 200] (newRapidPulseBuffer 1500 3))) = False
   \<and> snd (detectRapidPulse (feed [gst OPEN_PALM 0, gst FIST 100, gst POINT 200] (newRapidPulseBuffer 1500 3)))
       = feed [gst OPEN_PALM 0, gst FIST 100, gst POINT 200] (newRapidPulseBuffer 1500 3)
   \<and> length (buffer (feed [gst OPEN_PALM 0, gst FIST 100, gst POINT 200] (newRapidPulseBuffer 1500 3))) = 2"
proof -
  have h: "fst (detectRapidPulse (feed [gst OPEN_PALM 0, gst FIST 100, gst POINT 200] (newRapidPulseBuffer 1500 3))) = False"
    by (simp add: detectRapidPulse_def feed_def addGesture_def cleanOldEvents_def
        gst_def newRapidPulseBuffer_def)
  have l: "length (buffer (feed [gst OPEN_PALM 0, gst FIST 100, gst POINT 200] (newRapidPulseBuffer 1500 3))) = 2"
    by (simp add: feed_def addGesture_def cleanOldEvents_def gst_def newRapidPulseBuffer_def)
  show ?thesis
    using h l detectRapidPulse_false_unchanged [OF h] by simp
qed

text \<open>
  Claim C2 (pattern one-shot law). Five gestures OPEN_PALM, FIST, OPEN_PALM, FIST,
  OPEN_PALM whose timestamps all lie within the window of one another (any two differ
  by at most \<open>windowMs\<close>), fed to a fresh detector with \<open>0 < minChanges \<le> 4\<close>:
  \<open>detectRapidPulse\<close> returns true, leaves the buffer empty and \<open>lastGesture\<close>
  null, and an immediate second call returns false.
\<close>

theorem pattern_one_shot:
  assumes m: "0 < m" "m \<le> 4"
    and tys: "map type gs = [OPEN_PALM, FIST, OPEN_PALM, FIST, OPEN_PALM]"
    and win: "\<forall>a \<in> set gs. \<forall>b \<in> set gs. timestamp a - timestamp b \<le> w"
  shows "fst (detectRapidPulse (feed gs (newRapidPulseBuffer w m)))
       \<and> buffer (snd (detectRapidPulse (feed gs (newRapidPulseBuffer w m)))) = []
       \<and> lastGesture (snd (detectRapidPulse (feed gs (newRapidPulseBuffer w m)))) = None
       \<and> \<not> fst (detectRapidPulse (snd (detectRapidPulse (feed gs (newRapidPulseBuffer w m)))))"
proof -
  from tys obtain g1 g2 g3 g4 g5 where gs: "gs = [g1, g2, g3, g4, g5]"
    and t: "type g1 = OPEN_PALM" "type g2 = FIST" "type g3 = OPEN_PALM" "type g4 = FIST" "type g5 = OPEN_PALM"
    by (auto simp: map_eq_Cons_conv)
  from win gs have w: "0 \<le> w" "timestamp g3 - timestamp g2 \<le> w" "timestamp g4 - timestamp g2 \<le> w"
    "timestamp g5 - timestamp g2 \<le> w" "timestamp g4 - timestamp g3 \<le> w" "timestamp g5 - timestamp g3 \<le> w"
    "timestamp g5 - timestamp g4 \<le> w"
    by auto
  have buf: "buffer (feed gs (newRapidPulseBuffer w m)) =
     [changeEvent OPEN_PALM g2, changeEvent FIST g3, changeEvent OPEN_PALM g4, changeEvent FIST g5]"
    using w by (simp add: gs t feed_Cons feed_Nil buffer_addGesture lastGesture_addGesture
        windowMs_addGesture newRapidPulseBuffer_def changeEvent_def)
  have mc: "minChanges (feed gs (newRapidPulseBuffer w m)) = m"
    by (simp add: minChanges_feed newRapidPulseBuffer_def)
  have alt: "alternationCount [changeEvent OPEN_PALM g2, changeEvent FIST g3, changeEvent OPEN_PALM g4, changeEvent FIST g5] = 4"
    by (simp add: alternationCount_def countStep_def changeEvent_def t)
  show ?thesis using m
    by (simp add: detectRapidPulse_def buf mc alt reset_def)
qed

theorem pattern_one_shot_witness:
  "(0::real) < RAPID_PULSE_MIN_CHANGES \<and> RAPID_PULSE_MIN_CHANGES \<le> 4
   \<and> fst (detectRapidPulse (feed [gst OPEN_PALM 0, gst FIST 200, gst OPEN_PALM 400, gst FIST 600, gst OPEN_PALM 800]
          (newRapidPulseBuffer RAPID_PULSE_WINDOW_MS RAPID_PULSE_MIN_CHANGES)))
   \<and> buffer (snd (detectRapidPulse (feed [gst OPEN_PALM 0, gst FIST 200, gst OPEN_PALM 400, gst FIST 600, gst OPEN_PALM 800]
          (newRapidPulseBuffer RAPID_PULSE_WINDOW_MS RAPID_PULSE_MIN_CHANGES)))) = []
   \<and> lastGesture (snd (detectRapidPulse (feed [gst OPEN_PALM 0, gst FIST 200, gst OPEN_PALM 400, gst FIST 600, gst OPEN_PALM 800]
          (newRapidPulseBuffer RAPID_PULSE_WINDOW_MS RAPID_PULSE_MIN_CHANGES)))) = None
   \<and> \<not> fst (detectRapidPulse (snd (detectRapidPulse (feed [gst OPEN_PALM 0, gst FIST 200, gst OPEN_PALM 400, gst FIST 600, gst OPEN_PALM 800]
          (newRapidPulseBuffer RAPID_PULSE_WINDOW_MS RAPID_PULSE_MIN_CHANGES)))))"
proof -
  let ?gs = "[gst OPEN_PALM 0, gst FIST 200, gst OPEN_PALM 400, gst FIST 600, gst OPEN_PALM 800]"
  have m: "(0::real) < RAPID_PULSE_MIN_CHANGES" "RAPID_PULSE_MIN_CHANGES \<le> 4"
    by (simp_all add: RAPID_PULSE_MIN_CHANGES_def)
  have tys: "map type ?gs = [OPEN_PALM, FIST, OPEN_PALM, FIST, OPEN_PALM]"
    by (simp add: gst_def)
  have win: "\<forall>a \<in> set ?gs. \<forall>b \<in> set ?gs. timestamp a - timestamp b \<le> RAPID_PULSE_WINDOW_MS"
    by (simp add: gst_def RAPID_PULSE_WINDOW_MS_def)
  show ?thesis
    using m pattern_one_shot [OF m tys win] by simp
qed

text \<open>
  Claim C3 (pattern window expiry), as the code has it. The buffer is a sliding window:
  each recorded transition prunes the events older than its own timestamp minus
  \<open>windowMs\<close>. So a gesture sequence fed to a fresh detector does not trigger when
  fewer than \<open>minChanges\<close> of its transitions have a timestamp at or after the last
  transition's timestamp minus \<open>windowMs\<close>. A long total span alone does not
  prevent the trigger, as the counterexample shows.
\<close>

theorem pattern_window_expiry:
  assumes "real (length (filter (\<lambda>e. eventTimestamp e \<ge> eventTimestamp (last (transitions None gs)) - w)
                      (transitions None gs))) < m"
  shows "\<not> fst (detectRapidPulse (feed gs (newRapidPulseBuffer w m)))"
proof -
  let ?s0 = "newRapidPulseBuffer w m"
  let ?P = "\<lambda>e. eventTimestamp e \<ge> eventTimestamp (last (transitions None gs)) - w"
  have s0: "lastGesture ?s0 = None" "buffer ?s0 = []" "windowMs ?s0 = w" "minChanges ?s0 = m"
    by (simp_all add: newRapidPulseBuffer_def)
  have sub: "subseq (buffer (feed gs ?s0)) (transitions None gs)"
    using buffer_feed_subseq [of gs ?s0] by (simp add: s0)
  have all: "\<forall>e \<in> set (buffer (feed gs ?s0)). ?P e"
  proof (cases "transitions None gs = []")
    case True
    with sub have "buffer (feed gs ?s0) = []" by simp
    then show ?thesis by simp
  next
    case False
    then show ?thesis using buffer_feed_recent [of ?s0 gs] by (simp add: s0)
  qed
  have "subseq (filter ?P (buffer (feed gs ?s0))) (filter ?P (transitions None gs))"
    using sub by (rule subseq_filter)
  moreover have "filter ?P (buffer (feed gs ?s0)) = buffer (feed gs ?s0)"
    using all by (simp add: filter_id_conv)
  ultimately have "length (buffer (feed gs ?s0)) \<le> length (filter ?P (transitions None gs))"
    by (metis list_emb_length)
  then have "real (length (buffer (feed gs ?s0))) < minChanges (feed gs ?s0)"
    using assms by (simp add: minChanges_feed s0)
  then show ?thesis by (rule detect_needs_length)
qed

theorem pattern_window_expiry_witness:
  "real (length (filter (\<lambda>e. eventTimestamp e \<ge>
            eventTimestamp (last (transitions None [gst OPEN_PALM 0, gst FIST 100, gst OPEN_PALM 2000, gst FIST 2100]))
              - RAPID_PULSE_WINDOW_MS)
          (transitions None [gst OPEN_PALM 0, gst FIST 100, gst OPEN_PALM 2000, gst FIST 2100])))
     < RAPID_PULSE_MIN_CHANGES
   \<and> \<not> fst (detectRapidPulse (feed [gst OPEN_PALM 0, gst FIST 100, gst OPEN_PALM 2000, gst FIST 2100]
          (newRapidPulseBuffer RAPID_PULSE_WINDOW_MS RAPID_PULSE_MIN_CHANGES)))"
proof -
  have h: "real (length (filter (\<lambda>e. eventTimestamp e \<ge>
            eventTimestamp (last (transitions None [gst OPEN_PALM 0, gst FIST 100, gst OPEN_PALM 2000, gst FIST 2100]))
              - RAPID_PULSE_WINDOW_MS)
          (transitions None [gst OPEN_PALM 0, gst FIST 100, gst OPEN_PALM 2000, gst FIST 2100])))
     < RAPID_PULSE_MIN_CHANGES"
    by (simp add: gst_def changeEvent_def RAPID_PULSE_WINDOW_MS_def RAPID_PULSE_MIN_CHANGES_def)
  show ?thesis
    using h pattern_window_expiry [OF h] by simp
qed

text \<open>
  The claim as stated fails: an alternating sequence whose transitions span 2100 ms,
  more than the 1500 ms window, still triggers, because its last three transitions lie
  within 200 ms of one another.
\<close>

theorem pattern_window_expiry_counterexample:
  "2200 - 100 > RAPID_PULSE_WINDOW_MS
   \<and> fst (detectRapidPulse (feed [gst OPEN_PALM 0, gst FIST 100, gst OPEN_PALM 2000, gst FIST 2100, gst OPEN_PALM 2200]
          (newRapidPulseBuffer RAPID_PULSE_WINDOW_MS RAPID_PULSE_MIN_CHANGES)))"
  by (simp add: detectRapidPulse_def feed_def addGesture_def cleanOldEvents_def gst_def
      newRapidPulseBuffer_def alternationCount_def countStep_def reset_def
      RAPID_PULSE_WINDOW_MS_def RAPID_PULSE_MIN_CHANGES_def)

section \<open>Properties of the gesture classifier\<close>

lemmas FingerLandmark_defs =
  WRIST_def THUMB_CMC_def THUMB_MCP_def THUMB_IP_def THUMB_TIP_def
  INDEX_MCP_def INDEX_PIP_def INDEX_DIP_def INDEX_TIP_def
  MIDDLE_MCP_def MIDDLE_PIP_def MIDDLE_DIP_def MIDDLE_TIP_def
  RING_MCP_def RING_PIP_def RING_DIP_def RING_TIP_def
  PINKY_MCP_def PINKY_PIP_def PINKY_DIP_def PINKY_TIP_def

text \<open>
  Claim C8 (finger-extension symmetry), as the code has it. For 21 landmarks in which
  the tip of each of the four non-thumb fingers has a \<open>y\<close> strictly less than its
  pip's \<open>y\<close>, and the thumb tip's horizontal distance from the wrist exceeds 1.3
  times the thumb MCP's horizontal distance from the wrist, \<open>countExtendedFingers\<close> is
  5 and \<open>classify\<close> returns OPEN_PALM with confidence 1.
\<close>

theorem finger_extension_open_palm:
  assumes "length landmarks = 21"
    and "lm_y (landmarks ! INDEX_TIP) < lm_y (landmarks ! INDEX_PIP)"
    and "lm_y (landmarks ! MIDDLE_TIP) < lm_y (landmarks ! MIDDLE_PIP)"
    and "lm_y (landmarks ! RING_TIP) < lm_y (landmarks ! RING_PIP)"
    and "lm_y (landmarks ! PINKY_TIP) < lm_y (landmarks ! PINKY_PIP)"
    and "\<bar>lm_x (landmarks ! THUMB_TIP) - lm_x (landmarks ! WRIST)\<bar>
           > \<bar>lm_x (landmarks ! THUMB_MCP) - lm_x (landmarks ! WRIST)\<bar> * 1.3"
  shows "countExtendedFingers landmarks = 5
       \<and> type (classify (Some landmarks) now) = OPEN_PALM
       \<and> confidence (classify (Some landmarks) now) = 1"
proof -
  have c: "countExtendedFingers landmarks = 5"
    using assms by (simp add: countExtendedFingers_def isFingerExtended_def isThumbExtended_def)
  show ?thesis
    using assms(1) by (simp add: c classify_def)
qed

theorem finger_extension_open_palm_witness:
  "length openHand = 21
   \<and> lm_y (openHand ! INDEX_TIP) < lm_y (openHand ! INDEX_PIP)
   \<and> lm_y (openHand ! MIDDLE_TIP) < lm_y (openHand ! MIDDLE_PIP)
   \<and> lm_y (openHand ! RING_TIP) < lm_y (openHand ! RING_PIP)
   \<and> lm_y (openHand ! PINKY_TIP) < lm_y (openHand ! PINKY_PIP)
   \<and> \<bar>lm_x (openHand ! THUMB_TIP) - lm_x (openHand ! WRIST)\<bar>
        > \<bar>lm_x (openHand ! THUMB_MCP) - lm_x (openHand ! WRIST)\<bar> * 1.3
   \<and> countExtendedFingers openHand = 5
   \<and> type (classify (Some openHand) 0) = OPEN_PALM
   \<and> confidence (classify (Some openHand) 0) = 1"
proof -
  have h: "length openHand = 21"
    "lm_y (openHand ! INDEX_TIP) < lm_y (openHand ! INDEX_PIP)"
    "lm_y (openHand ! MIDDLE_TIP) < lm_y (openHand ! MIDDLE_PIP)"
    "lm_y (openHand ! RING_TIP) < lm_y (openHand ! RING_PIP)"
    "lm_y (openHand ! PINKY_TIP) < lm_y (openHand ! PINKY_PIP)"
    "\<bar>lm_x (openHand ! THUMB_TIP) - lm_x (openHand ! WRIST)\<bar>
        > \<bar>lm_x (openHand ! THUMB_MCP) - lm_x (openHand ! WRIST)\<bar> * 1.3"
    by (simp_all add: openHand_def lm_def FingerLandmark_defs)
  show ?thesis
    using h finger_extension_open_palm [OF h, of 0] by simp
qed

text \<open>
  The claim as stated fails: in \<open>raisedTipsHand\<close> every finger tip, the thumb's
  included, has a \<open>y\<close> strictly less than the joints below it, yet the thumb tip is
  at the wrist's \<open>x\<close>, so the thumb does not count, four fingers are extended and
  the gesture is UNKNOWN.
\<close>

theorem finger_extension_counterexample:
  "length raisedTipsHand = 21
   \<and> lm_y (raisedTipsHand ! THUMB_TIP) < lm_y (raisedTipsHand ! THUMB_IP)
   \<and> lm_y (raisedTipsHand ! THUMB_TIP) < lm_y (raisedTipsHand ! THUMB_MCP)
   \<and> lm_y (raisedTipsHand ! INDEX_TIP) < lm_y (raisedTipsHand ! INDEX_PIP)
   \<and> lm_y (raisedTipsHand ! MIDDLE_TIP) < lm_y (raisedTipsHand ! MIDDLE_PIP)
   \<and> lm_y (raisedTipsHand ! RING_TIP) < lm_y (raisedTipsHand ! RING_PIP)
   \<and> lm_y (raisedTipsHand ! PINKY_TIP) < lm_y (raisedTipsHand ! PINKY_PIP)
   \<and> countExtendedFingers raisedTipsHand = 4
   \<and> type (classify (Some raisedTipsHand) 0) = UNKNOWN"
  by (simp add: raisedTipsHand_def lm_def FingerLandmark_defs classify_def
      countExtendedFingers_def isFingerExtended_def isThumbExtended_def
      isOnlyIndexExtended_def isIndexAndMiddleExtended_def isIndexMiddleRingExtended_def)

section \<open>Properties of the particle engine\<close>

subsection \<open>What each operation does to the flags, the timers and the particle list\<close>

lemma assignTargets_length:
  "length (snd (assignTargets rs base points sh is ps)) = length ps"
  by (induction "is" arbitrary: ps) (simp_all add: Let_def split: option.splits)

lemma setTarget_fields:
  "isIdle (snd (setTarget rs points s)) = False"
  "isExploding (snd (setTarget rs points s)) = isExploding s"
  "explosionTime (snd (setTarget rs points s)) = explosionTime s"
  "isDispersing (snd (setTarget rs points s)) = isDispersing s"
  "dispersionTime (snd (setTarget rs points s)) = dispersionTime s"
  "isOrbiting (snd (setTarget rs points s)) = isOrbiting s"
  "orbitBounds (snd (setTarget rs points s)) = orbitBounds s"
  "orbitTime (snd (setTarget rs points s)) = orbitTime s"
  by (simp_all add: setTarget_def Let_def split: prod.splits)

lemma setIdleState_fields:
  "isIdle (setIdleState s) = True"
  "isExploding (setIdleState s) = False"
  "isDispersing (setIdleState s) = False"
  "isOrbiting (setIdleState s) = False"
  "orbitBounds (setIdleState s) = None"
  "explosionTime (setIdleState s) = explosionTime s"
  "dispersionTime (setIdleState s) = dispersionTime s"
  by (simp_all add: setIdleState_def)

lemma disperse_fields:
  "isIdle (disperse rs s) = False"
  "isExploding (disperse rs s) = False"
  "isDispersing (disperse rs s) = True"
  "dispersionTime (disperse rs s) = 0"
  "isOrbiting (disperse rs s) = isOrbiting s"
  "orbitBounds (disperse rs s) = orbitBounds s"
  "explosionTime (disperse rs s) = explosionTime s"
  by (simp_all add: disperse_def)

lemma explode_fields:
  "isIdle (explode s) = False"
  "isExploding (explode s) = True"
  "explosionTime (explode s) = 0"
  "isDispersing (explode s) = isDispersing s"
  "dispersionTime (explode s) = dispersionTime s"
  "isOrbiting (explode s) = isOrbiting s"
  "orbitBounds (explode s) = orbitBounds s"
  by (simp_all add: explode_def)

lemma orbitAroundBounds_fields:
  assumes "orbitAroundBounds rs b s = Some s'"
  shows "isIdle s' = False"
    and "isExploding s' = False"
    and "isDispersing s' = False"
    and "isOrbiting s' = True"
    and "orbitBounds s' = Some (expandByScalar b 15)"
    and "orbitTime s' = 0"
    and "explosionTime s' = explosionTime s"
    and "dispersionTime s' = dispersionTime s"
  using assms by (auto simp: orbitAroundBounds_def Let_def split: if_splits)

lemma orbitAroundBounds_Some:
  assumes "3 \<le> length (particles s)"
  shows "orbitAroundBounds rs b s = Some (the (orbitAroundBounds rs b s))"
proof -
  have "length (particles s) div 3 \<noteq> 0"
    using assms by (simp add: div_eq_0_iff)
  then show ?thesis
    by (simp add: orbitAroundBounds_def Let_def)
qed

lemma updateExplosion_fields:
  "isIdle (updateExplosion dt s) = isIdle s"
  "isExploding (updateExplosion dt s) = (isExploding s \<and> explosionTime s + dt < EXPLOSION_DURATION)"
  "explosionTime (updateExplosion dt s) = explosionTime s + dt"
  "isDispersing (updateExplosion dt s) = isDispersing s"
  "dispersionTime (updateExplosion dt s) = dispersionTime s"
  "isOrbiting (updateExplosion dt s) = isOrbiting s"
  "orbitBounds (updateExplosion dt s) = orbitBounds s"
  by (auto simp: updateExplosion_def Let_def)

lemma updateDispersion_fields:
  "isIdle (updateDispersion dt s) = (isIdle s \<or> dispersionTime s + dt \<ge> DISPERSION_DURATION)"
  "isExploding (updateDispersion dt s) = isExploding s"
  "explosionTime (updateDispersion dt s) = explosionTime s"
  "isDispersing (updateDispersion dt s) = (isDispersing s \<and> dispersionTime s + dt < DISPERSION_DURATION)"
  "dispersionTime (updateDispersion dt s) = dispersionTime s + dt"
  "isOrbiting (updateDispersion dt s) = isOrbiting s"
  "orbitBounds (updateDispersion dt s) = orbitBounds s"
  by (auto simp: updateDispersion_def Let_def)

lemma updateOrbiting_fields:
  "isIdle (updateOrbiting rs dt s) = isIdle s"
  "isExploding (updateOrbiting rs dt s) = isExploding s"
  "explosionTime (updateOrbiting rs dt s) = explosionTime s"
  "isDispersing (updateOrbiting rs dt s) = isDispersing s"
  "dispersionTime (updateOrbiting rs dt s) = dispersionTime s"
  "isOrbiting (updateOrbiting rs dt s) = isOrbiting s"
  "orbitBounds (updateOrbiting rs dt s) = orbitBounds s"
  by (simp_all add: updateOrbiting_def Let_def split: option.splits)

lemma updateIdleState_fields:
  "isIdle (updateIdleState now dt s) = isIdle s"
  "isExploding (updateIdleState now dt s) = isExploding s"
  "explosionTime (updateIdleState now dt s) = explosionTime s"
  "isDispersing (updateIdleState now dt s) = isDispersing s"
  "dispersionTime (updateIdleState now dt s) = dispersionTime s"
  "isOrbiting (updateIdleState now dt s) = isOrbiting s"
  "orbitBounds (updateIdleState now dt s) = orbitBounds s"
  by (simp_all add: updateIdleState_def)

lemma interpolateToTarget_fields:
  "isIdle (interpolateToTarget rs dt s) = isIdle s"
  "isExploding (interpolateToTarget rs dt s) = isExploding s"
  "explosionTime (interpolateToTarget rs dt s) = explosionTime s"
  "isDispersing (interpolateToTarget rs dt s) = isDispersing s"
  "dispersionTime (interpolateToTarget rs dt s) = dispersionTime s"
  "isOrbiting (interpolateToTarget rs dt s) = isOrbiting s"
  "orbitBounds (interpolateToTarget rs dt s) = orbitBounds s"
  by (simp_all add: interpolateToTarget_def)

lemmas engine_fields = setTarget_fields setIdleState_fields disperse_fields explode_fields
  updateExplosion_fields updateDispersion_fields updateOrbiting_fields
  updateIdleState_fields interpolateToTarget_fields

lemma update_activeMode:
  "update rs now dt s =
     (case activeMode s of
        EXPLODING \<Rightarrow> updateExplosion dt s
      | DISPERSING \<Rightarrow> updateDispersion dt s
      | ORBITING \<Rightarrow> updateOrbiting rs dt s
      | IDLE \<Rightarrow> updateIdleState now dt s
      | MORPHING \<Rightarrow> interpolateToTarget rs dt s)"
  by (simp add: update_def activeMode_def)

lemma flags_invariant:
  "reachable s \<Longrightarrow>
     (isIdle s \<longrightarrow> \<not> isExploding s \<and> \<not> isDispersing s) \<and> (isOrbiting s \<longleftrightarrow> orbitBounds s \<noteq> None)"
proof (induction rule: reachable.induct)
  case (constructed rs n s)
  then show ?case by (auto simp: newParticleSystem_def)
next
  case (afterUpdate s rs now deltaTime)
  then show ?case
    by (auto simp: update_def engine_fields)
next
  case (afterOrbitAroundBounds s rs bounds s')
  show ?case
    using orbitAroundBounds_fields [OF afterOrbitAroundBounds.hyps(2)] by simp
qed (simp_all add: engine_fields)

lemma map_update_preserved:
  assumes "f y = f (xs ! k)"
  shows "map f (xs[k := y]) = map f xs"
proof (cases "k < length xs")
  case True
  then show ?thesis using assms by (simp add: map_update list_update_same_conv)
next
  case False
  then show ?thesis by (simp add: list_update_beyond)
qed

lemma assignTargets_preserves:
  assumes "\<And>p t. f (p\<lparr>target := t\<rparr>) = f p"
  shows "map f (snd (assignTargets rs base points sh is ps)) = map f ps"
proof (induction "is" arbitrary: ps)
  case Nil
  show ?case by simp
next
  case (Cons i "is")
  show ?case
  proof (cases "pointAt points i")
    case None
    then show ?thesis by simp
  next
    case (Some point)
    then show ?thesis
      by (simp add: Let_def Cons.IH map_update_preserved assms)
  qed
qed

lemma setTarget_unfold:
  "setTarget rs points s =
     (let n = length (particles s);
          r = assignTargets rs (n - 1) points (fisherYates rs 0 (n - 1) [0..<n]) [0..<n] (particles s)
      in (fst r, s\<lparr>isIdle := False, particles := snd r\<rparr>))"
  by (simp add: setTarget_def Let_def split_beta)

lemma setTarget_particles_preserved:
  assumes "\<And>p t. f (p\<lparr>target := t\<rparr>) = f p"
  shows "map f (particles (snd (setTarget rs points s))) = map f (particles s)"
  by (simp add: setTarget_unfold Let_def assignTargets_preserves [of f, OF assms])

lemma setTarget_length: "length (particles (snd (setTarget rs points s))) = length (particles s)"
  by (simp add: setTarget_unfold Let_def assignTargets_length)

lemma setTarget_nth:
  assumes "\<And>p t. f (p\<lparr>target := t\<rparr>) = f p" and "i < length (particles s)"
  shows "f (particles (snd (setTarget rs points s)) ! i) = f (particles s ! i)"
proof -
  have "map f (particles (snd (setTarget rs points s))) ! i = map f (particles s) ! i"
    by (simp add: setTarget_particles_preserved [of f, OF assms(1)])
  then show ?thesis using assms(2) by (simp add: setTarget_length)
qed




lemma updateExplosion_particles:
  "length (particles (updateExplosion dt s)) = length (particles s)"
  "i < length (particles s) \<Longrightarrow>
     current (particles (updateExplosion dt s) ! i) =
       addV (current (particles s ! i))
         (multiplyScalar (velocity (particles s ! i)) (decayFactor (explosionTime s + dt) EXPLOSION_DURATION * dt))"
  by (simp_all add: updateExplosion_def Let_def)


lemma explode_oneParticleSystem:
  "particles (explode oneParticleSystem) = [oneParticle\<lparr>velocity := vec 5 0 0\<rparr>]"
  by (simp add: explode_def oneParticleSystem_def oneParticle_def normalizeV_def lengthV_def
      multiplyScalar_def vec_def Let_def)

subsection \<open>Mode flags\<close>

lemma initializeParticles_length: "length (initializeParticles rs n) = n"
  by (simp add: initializeParticles_def)

lemma reachable_orbiting_engine:
  "reachable (the (orbitAroundBounds halfDraws textBox
     (projr (newParticleSystem halfDraws PARTICLE_COUNT True))))"
proof -
  let ?s0 = "projr (newParticleSystem halfDraws PARTICLE_COUNT True)"
  have "newParticleSystem halfDraws PARTICLE_COUNT True = Inr ?s0"
    by (simp add: newParticleSystem_def)
  then have r: "reachable ?s0"
    by (rule reachable.constructed)
  have "3 \<le> length (particles ?s0)"
    by (simp add: newParticleSystem_def initializeParticles_length PARTICLE_COUNT_def)
  then have "orbitAroundBounds halfDraws textBox ?s0
               = Some (the (orbitAroundBounds halfDraws textBox ?s0))"
    by (rule orbitAroundBounds_Some)
  with r show ?thesis
    by (rule reachable.afterOrbitAroundBounds)
qed

lemma isOrbiting_orbiting_engine:
  "isOrbiting (the (orbitAroundBounds halfDraws textBox
     (projr (newParticleSystem halfDraws PARTICLE_COUNT True))))"
proof -
  let ?s0 = "projr (newParticleSystem halfDraws PARTICLE_COUNT True)"
  have "3 \<le> length (particles ?s0)"
    by (simp add: newParticleSystem_def initializeParticles_length PARTICLE_COUNT_def)
  then have "orbitAroundBounds halfDraws textBox ?s0
               = Some (the (orbitAroundBounds halfDraws textBox ?s0))"
    by (rule orbitAroundBounds_Some)
  then show ?thesis
    using orbitAroundBounds_fields(4) by blast
qed

text \<open>
  Claim C1 (mode exclusivity) against the code. The flags are not kept exclusive:
  \<open>disperse\<close> and \<open>explode\<close> do not clear the orbiting flag, as \<open>setIdleState\<close> and
  \<open>orbitAroundBounds\<close> clear the flags of the other modes. On every orbiting engine,
  \<open>disperse\<close> leaves the dispersing and the orbiting flag both set; once a tick has
  completed the dispersion, the idle and the orbiting flag are both set and every
  further tick runs the orbit routine, not the idle one; and \<open>explode\<close> leaves the
  exploding and the orbiting flag both set.
\<close>

theorem mode_flags_not_exclusive:
  assumes "isOrbiting s" and "DISPERSION_DURATION \<le> dt"
  shows "isDispersing (disperse rs s) \<and> isOrbiting (disperse rs s)
       \<and> isIdle (update rs1 now1 dt (disperse rs s))
       \<and> isOrbiting (update rs1 now1 dt (disperse rs s))
       \<and> update rs2 now2 dt2 (update rs1 now1 dt (disperse rs s))
           = updateOrbiting rs2 dt2 (update rs1 now1 dt (disperse rs s))
       \<and> isExploding (explode s) \<and> isOrbiting (explode s)"
proof -
  let ?d = "disperse rs s"
  let ?u = "update rs1 now1 dt ?d"
  have d: "isDispersing ?d" "isOrbiting ?d" "\<not> isExploding ?d" "dispersionTime ?d = 0"
    using assms(1) by (simp_all add: disperse_fields)
  have u: "?u = updateDispersion dt ?d"
    using d by (simp add: update_def)
  have f: "isIdle ?u" "isOrbiting ?u" "\<not> isExploding ?u" "\<not> isDispersing ?u"
    using d assms(2) by (simp_all add: u updateDispersion_fields)
  have n: "update rs2 now2 dt2 ?u = updateOrbiting rs2 dt2 ?u"
    using f by (simp add: update_def)
  have e: "isExploding (explode s)" "isOrbiting (explode s)"
    using assms(1) by (simp_all add: explode_fields)
  show ?thesis
    using d(1,2) f(1,2) n e by blast
qed

text \<open>
  At the failing input: a constructed engine of \<open>PARTICLE_COUNT\<close> particles, then
  \<open>orbitAroundBounds\<close>, \<open>disperse\<close> and one tick of 0.3 s.
\<close>

theorem mode_flags_not_exclusive_witness:
  "reachable (update halfDraws zeroClock (3 / 10) (disperse halfDraws
     (the (orbitAroundBounds halfDraws textBox
        (projr (newParticleSystem halfDraws PARTICLE_COUNT True))))))
   \<and> isOrbiting (the (orbitAroundBounds halfDraws textBox
        (projr (newParticleSystem halfDraws PARTICLE_COUNT True))))
   \<and> DISPERSION_DURATION \<le> 3 / 10
   \<and> isDispersing (disperse halfDraws
        (the (orbitAroundBounds halfDraws textBox
           (projr (newParticleSystem halfDraws PARTICLE_COUNT True)))))
   \<and> isOrbiting (disperse halfDraws
        (the (orbitAroundBounds halfDraws textBox
           (projr (newParticleSystem halfDraws PARTICLE_COUNT True)))))
   \<and> isIdle (update halfDraws zeroClock (3 / 10) (disperse halfDraws
        (the (orbitAroundBounds halfDraws textBox
           (projr (newParticleSystem halfDraws PARTICLE_COUNT True))))))
   \<and> isOrbiting (update halfDraws zeroClock (3 / 10) (disperse halfDraws
        (the (orbitAroundBounds halfDraws textBox
           (projr (newParticleSystem halfDraws PARTICLE_COUNT True))))))
   \<and> update halfDraws zeroClock (1 / 60) (update halfDraws zeroClock (3 / 10) (disperse halfDraws
        (the (orbitAroundBounds halfDraws textBox
           (projr (newParticleSystem halfDraws PARTICLE_COUNT True))))))
      = updateOrbiting halfDraws (1 / 60) (update halfDraws zeroClock (3 / 10) (disperse halfDraws
        (the (orbitAroundBounds halfDraws textBox
           (projr (newParticleSystem halfDraws PARTICLE_COUNT True))))))
   \<and> isExploding (explode
        (the (orbitAroundBounds halfDraws textBox
           (projr (newParticleSystem halfDraws PARTICLE_COUNT True)))))
   \<and> isOrbiting (explode
        (the (orbitAroundBounds halfDraws textBox
           (projr (newParticleSystem halfDraws PARTICLE_COUNT True)))))"
proof -
  let ?s = "the (orbitAroundBounds halfDraws textBox
     (projr (newParticleSystem halfDraws PARTICLE_COUNT True)))"
  have r: "reachable (update halfDraws zeroClock (3 / 10) (disperse halfDraws ?s))"
    by (intro reachable.afterUpdate reachable.afterDisperse reachable_orbiting_engine)
  have t: "DISPERSION_DURATION \<le> 3 / 10"
    by (simp add: DISPERSION_DURATION_def)
  show ?thesis
    using r t isOrbiting_orbiting_engine
      mode_flags_not_exclusive [OF isOrbiting_orbiting_engine t,
        of halfDraws halfDraws zeroClock halfDraws zeroClock "1 / 60"]
    by blast
qed

subsection \<open>An empty target set\<close>

text \<open>
  Claim C7 (empty target set), as the code has it. \<open>setTarget\<close> called with no anchor
  points on an engine that holds at least one particle throws a TypeError, after it has
  cleared the idle flag; apart from that flag the state, every particle included, is
  what it was. On an engine with no particles it only clears the idle flag. At the
  orchestration layer a label that is not among the pre-generated texts makes no engine
  call at all.
\<close>

theorem setTarget_empty:
  "(particles s \<noteq> [] \<longrightarrow> setTarget rs [] s = (Some TypeError, s\<lparr>isIdle := False\<rparr>))
   \<and> (particles s = [] \<longrightarrow> setTarget rs [] s = (None, s\<lparr>isIdle := False\<rparr>))
   \<and> (text \<notin> set TEXTS_TO_GENERATE \<longrightarrow>
        fst (targetTextEffect ready fontLoaded bounds boundsAtTimer prevTargetText (Some text)) = [])"
proof -
  have a: "setTarget rs [] s = (Some TypeError, s\<lparr>isIdle := False\<rparr>)" if "particles s \<noteq> []"
  proof -
    from that have "[0..<length (particles s)] = 0 # [1..<length (particles s)]"
      by (simp add: upt_conv_Cons)
    then show ?thesis
      by (simp add: setTarget_unfold Let_def pointAt_def)
  qed
  have b: "setTarget rs [] s = (None, s\<lparr>isIdle := False\<rparr>)" if "particles s = []"
    using that by (simp add: setTarget_unfold Let_def)
  have c: "fst (targetTextEffect ready fontLoaded bounds boundsAtTimer prevTargetText (Some text)) = []"
    if "text \<notin> set TEXTS_TO_GENERATE"
    using that by (simp add: targetTextEffect_def)
  show ?thesis using a b c by blast
qed

theorem setTarget_empty_witness:
  "particles oneParticleSystem \<noteq> []
   \<and> setTarget halfDraws [] oneParticleSystem = (Some TypeError, oneParticleSystem\<lparr>isIdle := False\<rparr>)
   \<and> particles (emptyParticleSystem) = []
   \<and> setTarget halfDraws [] emptyParticleSystem = (None, emptyParticleSystem\<lparr>isIdle := False\<rparr>)
   \<and> ''Hello'' \<notin> set TEXTS_TO_GENERATE
   \<and> fst (targetTextEffect True True (Some textBox) (Some textBox) None (Some ''Hello'')) = []"
proof -
  have a: "particles oneParticleSystem \<noteq> []"
    by (simp add: oneParticleSystem_def)
  have b: "particles emptyParticleSystem = []"
    by (simp add: emptyParticleSystem_def newParticleSystem_def initializeParticles_def)
  have c: "''Hello'' \<notin> set TEXTS_TO_GENERATE"
    by (simp add: TEXTS_TO_GENERATE_def)
  show ?thesis
    using a b c
      setTarget_empty [of oneParticleSystem halfDraws "''Hello''" True True "Some textBox"
        "Some textBox" None]
      setTarget_empty [of emptyParticleSystem halfDraws "''Hello''" True True "Some textBox"
        "Some textBox" None]
    by simp
qed

text \<open>
  The claim as stated fails: on the idle one-particle engine the call throws, and the
  engine is no longer idle afterwards.
\<close>

theorem setTarget_empty_counterexample:
  "fst (setTarget halfDraws [] oneParticleSystem) = Some TypeError
   \<and> isIdle oneParticleSystem
   \<and> \<not> isIdle (snd (setTarget halfDraws [] oneParticleSystem))"
  by (simp add: setTarget_unfold Let_def pointAt_def oneParticleSystem_def)

subsection \<open>Large and zero time steps\<close>



lemma timers_nonneg_preserved:
  assumes "0 \<le> explosionTime s \<and> 0 \<le> dispersionTime s"
  shows "0 \<le> explosionTime (snd (setTarget rs points s)) \<and> 0 \<le> dispersionTime (snd (setTarget rs points s))"
    and "0 \<le> explosionTime (setIdleState s) \<and> 0 \<le> dispersionTime (setIdleState s)"
    and "0 \<le> explosionTime (disperse rs s) \<and> 0 \<le> dispersionTime (disperse rs s)"
    and "0 \<le> explosionTime (explode s) \<and> 0 \<le> dispersionTime (explode s)"
    and "orbitAroundBounds rs b s = Some s' \<Longrightarrow> 0 \<le> explosionTime s' \<and> 0 \<le> dispersionTime s'"
    and "0 \<le> dt \<Longrightarrow> 0 \<le> explosionTime (update rs now dt s) \<and> 0 \<le> dispersionTime (update rs now dt s)"
  using assms by (simp_all add: engine_fields orbitAroundBounds_fields update_def)













subsection \<open>The radial term of the orbit\<close>

lemma dotV_addV: "dotV (addV a b) c = dotV a c + dotV b c"
  by (simp add: dotV_def addV_def vec_def algebra_simps)

lemma dotV_multiplyScalar: "dotV (multiplyScalar a k) c = k * dotV a c"
  by (simp add: dotV_def multiplyScalar_def vec_def algebra_simps)

lemma dotV_normalize:
  "dotV (normalizeV a) c = dotV a c / (if lengthV a = 0 then 1 else lengthV a)"
  by (simp add: dotV_def normalizeV_def vec_def Let_def add_divide_distrib)

lemma dotV_self: "dotV a a = lengthV a * lengthV a"
proof -
  have "0 \<le> vx a * vx a + vy a * vy a + vz a * vz a"
    by (intro add_nonneg_nonneg) simp_all
  then show ?thesis
    by (simp add: dotV_def lengthV_def)
qed

lemma dotV_cross_radial:
  "dotV (crossVectors (subV p c) a) (subV c p) = 0"
  by (simp add: dotV_def crossVectors_def subV_def vec_def algebra_simps)

lemma lengthV_nonneg: "0 \<le> lengthV a"
  by (simp add: lengthV_def add_nonneg_nonneg)

lemma orbit_tangent_radial:
  "dotV (if lengthV (normalizeV (crossVectors (subV p c) a)) < 0.01
         then normalizeV (crossVectors (subV p c) (vec 1 0 0))
         else normalizeV (crossVectors (subV p c) a)) (subV c p) = 0"
  by (simp add: dotV_normalize dotV_cross_radial)

lemma orbitVelocity_radial:
  assumes "0 < lengthV (subV center (current p))"
  shows "\<exists>wave. - 0.3 \<le> wave \<and> wave \<le> 0.3 \<and>
           dotV (orbitVelocity center t p) (subV center (current p)) =
             (radialSpeed (lengthV (subV center (current p))) (speed p) + wave)
             * lengthV (subV center (current p))"
proof -
  define tc where "tc = subV center (current p)"
  define tangent where "tangent =
     (if lengthV (normalizeV (crossVectors (subV (current p) center) (orbitAxis p))) < 0.01
      then normalizeV (crossVectors (subV (current p) center) (vec 1 0 0))
      else normalizeV (crossVectors (subV (current p) center) (orbitAxis p)))"
  define wave where "wave = sin (t * 2 + vx (current p) * 0.1 + vz (current p) * 0.1) * 0.3"
  have v: "orbitVelocity center t p =
      addV (multiplyScalar tangent (2.0 * speed p))
           (multiplyScalar (normalizeV tc) (radialSpeed (lengthV tc) (speed p) + wave))"
    unfolding tc_def tangent_def wave_def by (simp add: orbitVelocity_def Let_def)
  have t0: "dotV tangent tc = 0"
    unfolding tangent_def tc_def by (rule orbit_tangent_radial)
  have n: "dotV (normalizeV tc) tc = lengthV tc"
    using assms by (simp add: dotV_normalize dotV_self tc_def)
  have d: "dotV (orbitVelocity center t p) tc = (radialSpeed (lengthV tc) (speed p) + wave) * lengthV tc"
    by (simp only: v dotV_addV dotV_multiplyScalar t0 n mult_zero_right add_0_left)
  have "- 1 \<le> sin (t * 2 + vx (current p) * 0.1 + vz (current p) * 0.1)"
    "sin (t * 2 + vx (current p) * 0.1 + vz (current p) * 0.1) \<le> 1"
    by (rule sin_ge_minus_one, rule sin_le_one)
  then have "- 0.3 \<le> wave" "wave \<le> 0.3"
    unfolding wave_def by linarith+
  then show ?thesis using d unfolding tc_def by blast
qed

lemma orbit_radial:
  assumes "3 / 5 < speed p"
  shows "(20 < lengthV (subV center (current p)) \<longrightarrow>
            dotV (orbitVelocity center t p) (subV center (current p)) < 0)
       \<and> (0 < lengthV (subV center (current p)) \<and> lengthV (subV center (current p)) \<le> 20 \<longrightarrow>
            0 < dotV (orbitVelocity center t p) (subV center (current p)))"
proof -
  let ?d = "lengthV (subV center (current p))"
  have far: "dotV (orbitVelocity center t p) (subV center (current p)) < 0" if "20 < ?d"
  proof -
    have pos: "0 < ?d" using that by simp
    from orbitVelocity_radial [OF pos, of t] obtain wave where
      w: "- 0.3 \<le> wave" "wave \<le> 0.3"
      and d: "dotV (orbitVelocity center t p) (subV center (current p)) =
                (radialSpeed ?d (speed p) + wave) * ?d"
      by blast
    have "radialSpeed ?d (speed p) = - 0.5 * speed p"
      using that by (simp add: radialSpeed_def)
    then have "radialSpeed ?d (speed p) + wave < 0"
      using assms w by linarith
    then show ?thesis
      using pos by (simp only: d mult_neg_pos)
  qed
  have near: "0 < dotV (orbitVelocity center t p) (subV center (current p))"
    if "0 < ?d" "?d \<le> 20"
  proof -
    from orbitVelocity_radial [OF that(1), of t] obtain wave where
      w: "- 0.3 \<le> wave" "wave \<le> 0.3"
      and d: "dotV (orbitVelocity center t p) (subV center (current p)) =
                (radialSpeed ?d (speed p) + wave) * ?d"
      by blast
    have "radialSpeed ?d (speed p) = 0.5 * speed p"
      using that by (simp add: radialSpeed_def)
    then have "0 < radialSpeed ?d (speed p) + wave"
      using assms w by linarith
    then show ?thesis
      using that(1) by (simp only: d mult_pos_pos)
  qed
  show ?thesis using far near by blast
qed

lemma updateOrbiting_velocity:
  assumes "orbitBounds s = Some b" "i < length (particles s)"
  shows "velocity (particles (updateOrbiting rs dt s) ! i)
           = orbitVelocity (getCenter b) (orbitTime s + dt) (particles s ! i)"
  using assms by (simp add: updateOrbiting_def Let_def forEachParticle_def orbitStep_def)

text \<open>
  Claim C5 (orbit radial correction) against the code. The claim asks for a pull back
  toward the target distance. The code does the opposite: for a particle with a speed
  multiplier above 0.6 (so that the wave term cannot outweigh the radial term), the
  velocity an orbiting tick sets has a negative component along the direction to the
  centre when the particle is farther than 20 from the centre, so it moves further
  out, and a positive one when it is within 20, so it moves further in.
\<close>

theorem orbit_radial_correction:
  assumes "activeMode s = ORBITING" "orbitBounds s = Some b"
    and "i < length (particles s)" "3 / 5 < speed (particles s ! i)"
  shows "(20 < lengthV (subV (getCenter b) (current (particles s ! i))) \<longrightarrow>
            dotV (velocity (particles (update rs now dt s) ! i))
                 (subV (getCenter b) (current (particles s ! i))) < 0)
       \<and> (0 < lengthV (subV (getCenter b) (current (particles s ! i)))
          \<and> lengthV (subV (getCenter b) (current (particles s ! i))) \<le> 20 \<longrightarrow>
            0 < dotV (velocity (particles (update rs now dt s) ! i))
                     (subV (getCenter b) (current (particles s ! i))))"
proof -
  have "isOrbiting s \<and> \<not> isExploding s \<and> \<not> isDispersing s"
    using assms(1) by (simp add: activeMode_def split: if_splits)
  then have "update rs now dt s = updateOrbiting rs dt s"
    by (simp add: update_def)
  then show ?thesis
    using orbit_radial [OF assms(4), of "getCenter b" "orbitTime s + dt"]
    by (simp add: updateOrbiting_velocity [OF assms(2,3)])
qed

lemma sqrt_625: "sqrt 625 = 25"
  using real_sqrt_abs [of 25] by simp

lemma sqrt_225: "sqrt 225 = 15"
  using real_sqrt_abs [of 15] by simp

lemma orbitVelocity_farParticle:
  "orbitVelocity (getCenter (expandByScalar textBox 15)) 0 farParticle = vec 0 (1 / 2) (- 2)"
  by (simp add: orbitVelocity_def getCenter_def expandByScalar_def textBox_def isEmpty_def
      farParticle_def Let_def vec_def addV_def subV_def multiplyScalar_def crossVectors_def
      normalizeV_def lengthV_def radialSpeed_def sqrt_625)

lemma orbitVelocity_closeParticle:
  "orbitVelocity (getCenter (expandByScalar textBox 15)) 0 closeParticle = vec 0 (- (1 / 2)) (- 2)"
  by (simp add: orbitVelocity_def getCenter_def expandByScalar_def textBox_def isEmpty_def
      closeParticle_def Let_def vec_def addV_def subV_def multiplyScalar_def crossVectors_def
      normalizeV_def lengthV_def radialSpeed_def sqrt_225)

text \<open>
  At the failing input: a particle 25 away from the centre, straight above it, and one
  15 away. The tick gives the first a velocity with the upward component 0.5, away from
  the centre, and the second one with the downward component 0.5, toward the centre.
\<close>

theorem orbit_radial_correction_witness:
  "activeMode orbitingSystem = ORBITING
   \<and> orbitBounds orbitingSystem = Some (expandByScalar textBox 15)
   \<and> 0 < length (particles orbitingSystem) \<and> 1 < length (particles orbitingSystem)
   \<and> 3 / 5 < speed (particles orbitingSystem ! 0) \<and> 3 / 5 < speed (particles orbitingSystem ! 1)
   \<and> lengthV (subV (getCenter (expandByScalar textBox 15)) (current (particles orbitingSystem ! 0))) = 25
   \<and> subV (getCenter (expandByScalar textBox 15)) (current (particles orbitingSystem ! 0)) = vec 0 (- 25) 0
   \<and> velocity (particles (update halfDraws zeroClock 0 orbitingSystem) ! 0) = vec 0 (1 / 2) (- 2)
   \<and> dotV (velocity (particles (update halfDraws zeroClock 0 orbitingSystem) ! 0))
          (subV (getCenter (expandByScalar textBox 15)) (current (particles orbitingSystem ! 0))) < 0
   \<and> lengthV (subV (getCenter (expandByScalar textBox 15)) (current (particles orbitingSystem ! 1))) = 15
   \<and> subV (getCenter (expandByScalar textBox 15)) (current (particles orbitingSystem ! 1)) = vec 0 (- 15) 0
   \<and> velocity (particles (update halfDraws zeroClock 0 orbitingSystem) ! 1) = vec 0 (- (1 / 2)) (- 2)
   \<and> 0 < dotV (velocity (particles (update halfDraws zeroClock 0 orbitingSystem) ! 1))
          (subV (getCenter (expandByScalar textBox 15)) (current (particles orbitingSystem ! 1)))"
proof -
  let ?c = "getCenter (expandByScalar textBox 15)"
  let ?u = "update halfDraws zeroClock 0 orbitingSystem"
  have m: "activeMode orbitingSystem = ORBITING"
    by (simp add: activeMode_def orbitingSystem_def)
  have b: "orbitBounds orbitingSystem = Some (expandByScalar textBox 15)"
    by (simp add: orbitingSystem_def)
  have i0: "0 < length (particles orbitingSystem)" and i1: "1 < length (particles orbitingSystem)"
    by (simp_all add: orbitingSystem_def)
  have p0: "particles orbitingSystem ! 0 = farParticle"
    and p1: "particles orbitingSystem ! 1 = closeParticle"
    by (simp_all add: orbitingSystem_def)
  have sp0: "3 / 5 < speed (particles orbitingSystem ! 0)"
    by (simp add: p0 farParticle_def)
  have sp1: "3 / 5 < speed (particles orbitingSystem ! 1)"
    unfolding p1 by (simp add: closeParticle_def)
  have tc0: "subV ?c (current (particles orbitingSystem ! 0)) = vec 0 (- 25) 0"
    by (simp add: p0 farParticle_def getCenter_def expandByScalar_def textBox_def isEmpty_def
        vec_def addV_def subV_def multiplyScalar_def)
  have tc1: "subV ?c (current (particles orbitingSystem ! 1)) = vec 0 (- 15) 0"
    unfolding p1
    by (simp add: closeParticle_def getCenter_def expandByScalar_def textBox_def isEmpty_def
        vec_def addV_def subV_def multiplyScalar_def)
  have d0: "lengthV (subV ?c (current (particles orbitingSystem ! 0))) = 25"
    by (simp add: tc0 lengthV_def vec_def sqrt_625)
  have d1: "lengthV (subV ?c (current (particles orbitingSystem ! 1))) = 15"
    unfolding tc1 by (simp add: lengthV_def vec_def sqrt_225)
  have u: "?u = updateOrbiting halfDraws 0 orbitingSystem"
    by (simp add: update_def orbitingSystem_def)
  have ot: "orbitTime orbitingSystem + 0 = 0"
    by (simp add: orbitingSystem_def)
  have v0: "velocity (particles ?u ! 0) = vec 0 (1 / 2) (- 2)"
    using updateOrbiting_velocity [OF b i0, of halfDraws 0]
    by (simp only: u p0 ot orbitVelocity_farParticle)
  have v1: "velocity (particles ?u ! 1) = vec 0 (- (1 / 2)) (- 2)"
    using updateOrbiting_velocity [OF b i1, of halfDraws 0]
    by (simp only: u p1 ot orbitVelocity_closeParticle)
  have far: "20 < lengthV (subV ?c (current (particles orbitingSystem ! 0)))"
    by (simp add: d0)
  have near: "0 < lengthV (subV ?c (current (particles orbitingSystem ! 1)))
      \<and> lengthV (subV ?c (current (particles orbitingSystem ! 1))) \<le> 20"
    unfolding d1 by simp
  from orbit_radial_correction [OF m b i0 sp0, of halfDraws zeroClock 0] far
  have r0: "dotV (velocity (particles ?u ! 0)) (subV ?c (current (particles orbitingSystem ! 0))) < 0"
    by blast
  from orbit_radial_correction [OF m b i1 sp1, of halfDraws zeroClock 0] near
  have r1: "0 < dotV (velocity (particles ?u ! 1)) (subV ?c (current (particles orbitingSystem ! 1)))"
    by blast
  show ?thesis
    using m b i0 i1 sp0 sp1 d0 d1 tc0 tc1 v0 v1 r0 r1 by blast
qed

subsection \<open>Morphing toward the targets\<close>

lemma lengthV_vec: "lengthV (vec a b c) = sqrt (a\<^sup>2 + b\<^sup>2 + c\<^sup>2)"
  by (simp add: lengthV_def vec_def power2_eq_square)

lemma lengthV_triangle: "lengthV (addV a b) \<le> lengthV a + lengthV b"
proof -
  have "sqrt ((vx a + vx b)\<^sup>2 + (vy a + vy b)\<^sup>2 + (vz a + vz b)\<^sup>2)
        = sqrt ((sqrt ((vx a + vx b)\<^sup>2 + (vy a + vy b)\<^sup>2))\<^sup>2 + (vz a + vz b)\<^sup>2)"
    by simp
  also have "\<dots> \<le> sqrt ((sqrt ((vx a)\<^sup>2 + (vy a)\<^sup>2) + sqrt ((vx b)\<^sup>2 + (vy b)\<^sup>2))\<^sup>2 + (vz a + vz b)\<^sup>2)"
    by (intro real_sqrt_le_mono add_right_mono power_mono real_sqrt_sum_squares_triangle_ineq
        real_sqrt_ge_zero add_nonneg_nonneg zero_le_power2)
  also have "\<dots> \<le> sqrt ((sqrt ((vx a)\<^sup>2 + (vy a)\<^sup>2))\<^sup>2 + (vz a)\<^sup>2)
                   + sqrt ((sqrt ((vx b)\<^sup>2 + (vy b)\<^sup>2))\<^sup>2 + (vz b)\<^sup>2)"
    by (rule real_sqrt_sum_squares_triangle_ineq)
  finally show ?thesis
    by (simp add: lengthV_def addV_def vec_def power2_eq_square)
qed

lemma lengthV_multiplyScalar: "lengthV (multiplyScalar a k) = \<bar>k\<bar> * lengthV a"
proof -
  have "(vx a * k)\<^sup>2 + (vy a * k)\<^sup>2 + (vz a * k)\<^sup>2 = k\<^sup>2 * ((vx a)\<^sup>2 + (vy a)\<^sup>2 + (vz a)\<^sup>2)"
    by (simp add: power2_eq_square algebra_simps)
  then have "sqrt ((vx a * k)\<^sup>2 + (vy a * k)\<^sup>2 + (vz a * k)\<^sup>2) = \<bar>k\<bar> * sqrt ((vx a)\<^sup>2 + (vy a)\<^sup>2 + (vz a)\<^sup>2)"
    by (simp add: real_sqrt_mult)
  then show ?thesis
    by (simp add: lengthV_def multiplyScalar_def vec_def power2_eq_square)
qed

lemma lengthV_box:
  assumes "\<bar>a\<bar> \<le> m" "\<bar>b\<bar> \<le> m" "\<bar>c\<bar> \<le> m"
  shows "lengthV (vec a b c) \<le> sqrt 3 * m"
proof -
  have m: "0 \<le> m" using assms(1) by simp
  have "a\<^sup>2 \<le> m\<^sup>2" "b\<^sup>2 \<le> m\<^sup>2" "c\<^sup>2 \<le> m\<^sup>2"
    using assms by (simp_all add: abs_le_square_iff [symmetric] m)
  then have "a\<^sup>2 + b\<^sup>2 + c\<^sup>2 \<le> 3 * m\<^sup>2" by simp
  then have "sqrt (a\<^sup>2 + b\<^sup>2 + c\<^sup>2) \<le> sqrt (3 * m\<^sup>2)"
    by (rule real_sqrt_le_mono)
  also have "\<dots> = sqrt 3 * m"
    using m by (simp add: real_sqrt_mult)
  finally show ?thesis by (simp add: lengthV_vec)
qed

lemma subV_step:
  "subV t (addV c (multiplyScalar (subV t c) k)) = multiplyScalar (subV t c) (1 - k)"
  by (simp add: subV_def addV_def multiplyScalar_def vec_def algebra_simps)

lemma subV_jitter:
  "subV t (addV c j) = addV (subV t c) (multiplyScalar j (- 1))"
  by (simp add: subV_def addV_def multiplyScalar_def vec_def)

lemma interpolateParticle_fixed:
  "target (interpolateParticle rs d p) = target p"
  "speed (interpolateParticle rs d p) = speed p"
  by (simp_all add: interpolateParticle_def Let_def)

lemma interpolateParticle_far:
  assumes "distanceToTarget p > 0.1" "0 \<le> speed p" "speed p \<le> 25"
  shows "distanceToTarget (interpolateParticle rs d p) \<le> distanceToTarget p"
proof -
  have k: "\<bar>1 - PARTICLE_MORPH_SPEED * speed p\<bar> \<le> 1"
    using assms(2,3) by (simp add: PARTICLE_MORPH_SPEED_def abs_le_iff)
  have "distanceToTarget (interpolateParticle rs d p)
          = \<bar>1 - PARTICLE_MORPH_SPEED * speed p\<bar> * distanceToTarget p"
    using assms(1)
    by (simp add: interpolateParticle_def distanceToTarget_def Let_def subV_step lengthV_multiplyScalar)
  also have "\<dots> \<le> 1 * distanceToTarget p"
    using k by (intro mult_right_mono) (simp_all add: distanceToTarget_def lengthV_nonneg)
  finally show ?thesis by simp
qed

lemma interpolateParticle_near:
  assumes "distanceToTarget p \<le> 0.1" "0 \<le> speed p"
    and "0 \<le> rs d \<and> rs d < 1" "0 \<le> rs (d + 1) \<and> rs (d + 1) < 1" "0 \<le> rs (d + 2) \<and> rs (d + 2) < 1"
  shows "distanceToTarget (interpolateParticle rs d p) \<le> 0.1 + sqrt 3 * (0.04 * speed p)"
proof -
  let ?j = "vec ((rs d - 0.5) * PARTICLE_JITTER_AMOUNT * speed p)
                ((rs (d + 1) - 0.5) * PARTICLE_JITTER_AMOUNT * speed p)
                ((rs (d + 2) - 0.5) * PARTICLE_JITTER_AMOUNT * speed p)"
  have c: "\<bar>(r - 0.5) * PARTICLE_JITTER_AMOUNT * speed p\<bar> \<le> 0.04 * speed p"
    if "0 \<le> r \<and> r < 1" for r :: real
  proof -
    have u: "(r - 0.5) * (0.08 * speed p) \<le> 0.5 * (0.08 * speed p)"
      using that assms(2) by (intro mult_right_mono) simp_all
    have l: "(- 0.5) * (0.08 * speed p) \<le> (r - 0.5) * (0.08 * speed p)"
      using that assms(2) by (intro mult_right_mono) simp_all
    show ?thesis
      using u l unfolding PARTICLE_JITTER_AMOUNT_def abs_le_iff by (simp add: field_simps)
  qed
  have j: "lengthV ?j \<le> sqrt 3 * (0.04 * speed p)"
    by (intro lengthV_box c assms)
  have "distanceToTarget (interpolateParticle rs d p)
          = lengthV (addV (subV (target p) (current p)) (multiplyScalar ?j (- 1)))"
    using assms(1)
    by (simp add: interpolateParticle_def distanceToTarget_def Let_def subV_jitter)
  also have "\<dots> \<le> lengthV (subV (target p) (current p)) + lengthV (multiplyScalar ?j (- 1))"
    by (rule lengthV_triangle)
  also have "\<dots> \<le> 0.1 + sqrt 3 * (0.04 * speed p)"
    using assms(1) j by (simp add: lengthV_multiplyScalar distanceToTarget_def)
  finally show ?thesis .
qed

lemma interpolateParticles_length: "length (interpolateParticles rs d ps) = length ps"
  by (induction ps arbitrary: d) simp_all

lemma interpolateParticles_nth:
  "i < length ps \<Longrightarrow> \<exists>d'. interpolateParticles rs d ps ! i = interpolateParticle rs d' (ps ! i)"
proof (induction ps arbitrary: d i)
  case Nil
  then show ?case by simp
next
  case (Cons p ps)
  show ?case
  proof (cases i)
    case 0
    then show ?thesis by auto
  next
    case (Suc j)
    then have "j < length ps" using Cons.prems by simp
    from Cons.IH [OF this] show ?thesis using Suc by simp
  qed
qed

lemma activeMode_MORPHING:
  "activeMode s = MORPHING \<longleftrightarrow> \<not> isIdle s \<and> \<not> isExploding s \<and> \<not> isDispersing s \<and> \<not> isOrbiting s"
  by (simp add: activeMode_def)

lemma morph_tick:
  assumes "activeMode s = MORPHING"
  shows "activeMode (update rs now dt s) = MORPHING"
    and "length (particles (update rs now dt s)) = length (particles s)"
    and "i < length (particles s) \<Longrightarrow>
           \<exists>d. particles (update rs now dt s) ! i = interpolateParticle rs d (particles s ! i)"
proof -
  have u: "update rs now dt s = interpolateToTarget rs dt s"
    using assms by (simp add: update_def activeMode_MORPHING)
  show "activeMode (update rs now dt s) = MORPHING"
    using assms by (simp add: u activeMode_MORPHING interpolateToTarget_fields)
  show "length (particles (update rs now dt s)) = length (particles s)"
    by (simp add: u interpolateToTarget_def interpolateParticles_length)
  show "\<exists>d. particles (update rs now dt s) ! i = interpolateParticle rs d (particles s ! i)"
    if "i < length (particles s)"
    using interpolateParticles_nth [OF that, of rs 0] by (simp add: u interpolateToTarget_def)
qed

lemma ticks_morph:
  assumes "activeMode s = MORPHING"
  shows "activeMode (ticks rss nows dt n s) = MORPHING
       \<and> length (particles (ticks rss nows dt n s)) = length (particles s)
       \<and> (\<forall>i < length (particles s).
            target (particles (ticks rss nows dt n s) ! i) = target (particles s ! i)
          \<and> speed (particles (ticks rss nows dt n s) ! i) = speed (particles s ! i))"
proof (induction n)
  case 0
  show ?case using assms by simp
next
  case (Suc n)
  let ?t = "ticks rss nows dt n s"
  have m: "activeMode ?t = MORPHING" and l: "length (particles ?t) = length (particles s)"
    using Suc by simp_all
  have "target (particles (update (rss n) (nows n) dt ?t) ! i) = target (particles s ! i)
      \<and> speed (particles (update (rss n) (nows n) dt ?t) ! i) = speed (particles s ! i)"
    if "i < length (particles s)" for i
  proof -
    from that l have "i < length (particles ?t)" by simp
    from morph_tick(3) [OF m this, of "rss n" "nows n" dt] obtain d where
      "particles (update (rss n) (nows n) dt ?t) ! i = interpolateParticle (rss n) d (particles ?t ! i)"
      by blast
    then show ?thesis using Suc that by (simp add: interpolateParticle_fixed)
  qed
  then show ?case
    using morph_tick(1,2) [OF m, of "rss n" "nows n" dt] l by simp
qed

lemma morph_step:
  assumes m: "activeMode s = MORPHING" and i: "i < length (particles s)"
    and sp: "1 / 2 \<le> speed (particles s ! i)" "speed (particles s ! i) \<le> 3 / 2"
    and dr: "\<forall>n k. 0 \<le> rss n k \<and> rss n k < 1"
  shows "(0.1 < distanceToTarget (particles (ticks rss nows dt n s) ! i) \<longrightarrow>
            distanceToTarget (particles (ticks rss nows dt (Suc n) s) ! i)
              \<le> distanceToTarget (particles (ticks rss nows dt n s) ! i))
       \<and> (distanceToTarget (particles (ticks rss nows dt n s) ! i) \<le> 0.1 \<longrightarrow>
            distanceToTarget (particles (ticks rss nows dt (Suc n) s) ! i) \<le> 0.1 + sqrt 3 * 0.06)"
proof -
  let ?t = "ticks rss nows dt n s"
  from ticks_morph [OF m, of rss nows dt n] i
  have tm: "activeMode ?t = MORPHING" and tl: "i < length (particles ?t)"
    and ts: "speed (particles ?t ! i) = speed (particles s ! i)"
    by simp_all
  from morph_tick(3) [OF tm tl, of "rss n" "nows n" dt] obtain d where
    d: "particles (ticks rss nows dt (Suc n) s) ! i = interpolateParticle (rss n) d (particles ?t ! i)"
    by auto
  have s0: "0 \<le> speed (particles ?t ! i)" "speed (particles ?t ! i) \<le> 25"
    using sp ts by simp_all
  have far: "distanceToTarget (interpolateParticle (rss n) d (particles ?t ! i))
               \<le> distanceToTarget (particles ?t ! i)"
    if "0.1 < distanceToTarget (particles ?t ! i)"
    using interpolateParticle_far [OF _ s0] that by simp
  have near: "distanceToTarget (interpolateParticle (rss n) d (particles ?t ! i)) \<le> 0.1 + sqrt 3 * 0.06"
    if "distanceToTarget (particles ?t ! i) \<le> 0.1"
  proof -
    have "distanceToTarget (interpolateParticle (rss n) d (particles ?t ! i))
            \<le> 0.1 + sqrt 3 * (0.04 * speed (particles ?t ! i))"
      using interpolateParticle_near [OF that s0(1), of "rss n" d] dr by simp
    also have "\<dots> \<le> 0.1 + sqrt 3 * (0.04 * (3 / 2))"
      using sp(2) ts by (intro add_left_mono mult_left_mono) simp_all
    finally show ?thesis by simp
  qed
  show ?thesis using far near by (simp only: d) blast
qed

lemma morph_stays:
  assumes m: "activeMode s = MORPHING" and i: "i < length (particles s)"
    and sp: "1 / 2 \<le> speed (particles s ! i)" "speed (particles s ! i) \<le> 3 / 2"
    and dr: "\<forall>n k. 0 \<le> rss n k \<and> rss n k < 1"
    and b: "distanceToTarget (particles (ticks rss nows dt n s) ! i) \<le> 0.1 + sqrt 3 * 0.06"
  shows "distanceToTarget (particles (ticks rss nows dt (n + j) s) ! i) \<le> 0.1 + sqrt 3 * 0.06"
proof (induction j)
  case 0
  show ?case using b by simp
next
  case (Suc j)
  note st = morph_step [OF m i sp dr, of nows dt "n + j"]
  show ?case
  proof (cases "0.1 < distanceToTarget (particles (ticks rss nows dt (n + j) s) ! i)")
    case True
    with st have "distanceToTarget (particles (ticks rss nows dt (Suc (n + j)) s) ! i)
              \<le> distanceToTarget (particles (ticks rss nows dt (n + j) s) ! i)"
      by blast
    with Suc show ?thesis by simp
  next
    case False
    with st have "distanceToTarget (particles (ticks rss nows dt (Suc (n + j)) s) ! i) \<le> 0.1 + sqrt 3 * 0.06"
      by auto
    then show ?thesis by simp
  qed
qed

lemma assignTargets_no_error:
  "points \<noteq> [] \<Longrightarrow> fst (assignTargets rs base points sh is ps) = None"
  by (induction "is" arbitrary: ps) (simp_all add: Let_def pointAt_def)

lemma setTarget_no_error: "points \<noteq> [] \<Longrightarrow> fst (setTarget rs points s) = None"
  by (simp add: setTarget_unfold Let_def assignTargets_no_error)

lemma constructed_morph_ready:
  assumes "newParticleSystem rs n True = Inr s" and "\<forall>k. 0 \<le> rs k \<and> rs k < 1"
  shows "\<not> isExploding s \<and> \<not> isDispersing s \<and> \<not> isOrbiting s
       \<and> (\<forall>p \<in> set (particles s). 1 / 2 \<le> speed p \<and> speed p \<le> 3 / 2)"
proof -
  have "1 / 2 \<le> speed (initParticle rs k) \<and> speed (initParticle rs k) \<le> 3 / 2" for k
    using assms(2) [rule_format, of "k + 7"] by (simp add: initParticle_def Let_def)
  then show ?thesis
    using assms(1) by (auto simp: newParticleSystem_def initializeParticles_def)
qed

subsection \<open>Switching modes in the middle of an animation\<close>

lemma fisherYates_length: "length (fisherYates rs d i xs) = length xs"
  by (induction rs d i xs rule: fisherYates.induct) (simp_all add: Let_def)

lemma draw_index:
  assumes "0 \<le> r \<and> r < 1"
  shows "nat \<lfloor>r * real (Suc i)\<rfloor> \<le> i"
proof -
  have "r * real (Suc i) < real (Suc i)"
    using assms by simp
  then have "\<lfloor>r * real (Suc i)\<rfloor> < int (Suc i)"
    by (simp add: floor_less_iff)
  then show ?thesis by simp
qed

lemma fisherYates_set:
  assumes "\<forall>k. 0 \<le> rs k \<and> rs k < 1"
  shows "i < length xs \<Longrightarrow> set (fisherYates rs d i xs) = set xs"
proof (induction i arbitrary: d xs)
  case 0
  show ?case by simp
next
  case (Suc i')
  let ?j = "nat \<lfloor>rs d * real (Suc i' + 1)\<rfloor>"
  have "0 \<le> rs d \<and> rs d < 1" using assms by blast
  from draw_index [OF this, of "Suc i'"] have j: "?j \<le> Suc i'"
    by simp
  then have jl: "?j < length xs" using Suc.prems by simp
  have sw: "set (xs[Suc i' := xs ! ?j, ?j := xs ! Suc i']) = set xs"
    using Suc.prems jl by (simp add: set_swap)
  have "set (fisherYates rs (d + 1) i' (xs[Suc i' := xs ! ?j, ?j := xs ! Suc i']))
          = set (xs[Suc i' := xs ! ?j, ?j := xs ! Suc i'])"
    using Suc.prems by (intro Suc.IH) simp
  then show ?case using sw by (simp add: Let_def)
qed

lemma shuffled_onto:
  assumes "\<forall>k. 0 \<le> rs k \<and> rs k < 1" and "k < n"
  shows "\<exists>i < n. fisherYates rs 0 (n - 1) [0..<n] ! i = k"
proof -
  have "set (fisherYates rs 0 (n - 1) [0..<n]) = set [0..<n]"
    using assms by (intro fisherYates_set) simp_all
  then have "k \<in> set (fisherYates rs 0 (n - 1) [0..<n])"
    using assms(2) by simp
  then show ?thesis
    by (simp add: in_set_conv_nth fisherYates_length)
qed

lemma assignTargets_step:
  assumes "points \<noteq> []"
  shows "assignTargets rs base points sh (i # is) ps =
           assignTargets rs base points sh is
             (ps[sh ! i := (ps ! (sh ! i))\<lparr>target := assignedTarget rs base points i\<rparr>])"
  using assms by (simp add: pointAt_def assignedTarget_def Let_def)

lemma assignTargets_untouched:
  assumes "points \<noteq> []"
  shows "\<forall>i \<in> set is. sh ! i \<noteq> k \<Longrightarrow> snd (assignTargets rs base points sh is ps) ! k = ps ! k"
proof (induction "is" arbitrary: ps)
  case Nil
  show ?case by simp
next
  case (Cons i "is")
  then show ?case
    by (simp add: assignTargets_step [OF assms] del: assignTargets.simps)
qed

lemma assignTargets_target:
  assumes "points \<noteq> []"
  shows "k < length ps \<Longrightarrow> \<exists>i \<in> set is. sh ! i = k \<Longrightarrow>
           \<exists>i \<in> set is. sh ! i = k
             \<and> target (snd (assignTargets rs base points sh is ps) ! k) = assignedTarget rs base points i"
proof (induction "is" arbitrary: ps)
  case Nil
  then show ?case by simp
next
  case (Cons i "is")
  let ?ps1 = "ps[sh ! i := (ps ! (sh ! i))\<lparr>target := assignedTarget rs base points i\<rparr>]"
  have st: "assignTargets rs base points sh (i # is) ps = assignTargets rs base points sh is ?ps1"
    by (rule assignTargets_step [OF assms])
  show ?case
  proof (cases "\<exists>i' \<in> set is. sh ! i' = k")
    case True
    have "k < length ?ps1" using Cons.prems(1) by simp
    from Cons.IH [OF this True] show ?thesis
      by (simp only: st) auto
  next
    case False
    then have ki: "sh ! i = k" using Cons.prems(2) by auto
    have "snd (assignTargets rs base points sh is ?ps1) ! k = ?ps1 ! k"
      using False by (intro assignTargets_untouched [OF assms]) simp
    then have "target (snd (assignTargets rs base points sh (i # is) ps) ! k)
                 = assignedTarget rs base points i"
      using Cons.prems(1) ki by (simp only: st) simp
    then show ?thesis using ki by auto
  qed
qed

lemma setTarget_target:
  assumes dr: "\<forall>j. 0 \<le> rs j \<and> rs j < 1" and pts: "points \<noteq> []"
    and k: "k < length (particles s)"
  shows "\<exists>i < length (particles s).
           target (particles (snd (setTarget rs points s)) ! k)
             = assignedTarget rs (length (particles s) - 1) points i"
proof -
  let ?n = "length (particles s)"
  let ?sh = "fisherYates rs 0 (?n - 1) [0..<?n]"
  from shuffled_onto [OF dr k] have "\<exists>i \<in> set [0..<?n]. ?sh ! i = k"
    by auto
  from assignTargets_target [OF pts k this, of rs "?n - 1"]
  show ?thesis
    by (auto simp: setTarget_unfold Let_def)
qed

lemma assignedTarget_near:
  assumes dr: "\<forall>j. 0 \<le> rs j \<and> rs j < 1"
  shows "\<bar>vx (assignedTarget rs base points i) - px (points ! (i mod length points))\<bar>
           \<le> real (i div length points) * 0.025"
    and "\<bar>vy (assignedTarget rs base points i) - py (points ! (i mod length points))\<bar>
           \<le> real (i div length points) * 0.025"
    and "\<bar>vz (assignedTarget rs base points i) - pz (points ! (i mod length points))\<bar>
           \<le> real (i div length points) * 0.025"
proof -
  have c: "\<bar>(r - 0.5) * (real l * 0.05)\<bar> \<le> real l * 0.025" if "0 \<le> r \<and> r < 1" for r :: real and l :: nat
  proof -
    have u: "(r - 0.5) * (real l * 0.05) \<le> 0.5 * (real l * 0.05)"
      using that by (intro mult_right_mono) simp_all
    have l: "(- 0.5) * (real l * 0.05) \<le> (r - 0.5) * (real l * 0.05)"
      using that by (intro mult_right_mono) simp_all
    show ?thesis
      using u l unfolding abs_le_iff by (simp add: field_simps)
  qed
  show "\<bar>vx (assignedTarget rs base points i) - px (points ! (i mod length points))\<bar>
           \<le> real (i div length points) * 0.025"
    using c [OF dr [rule_format, of "base + 3 * i"], of "i div length points"]
    by (simp add: assignedTarget_def Let_def vec_def)
  show "\<bar>vy (assignedTarget rs base points i) - py (points ! (i mod length points))\<bar>
           \<le> real (i div length points) * 0.025"
    using c [OF dr [rule_format, of "base + 3 * i + 1"], of "i div length points"]
    by (simp add: assignedTarget_def Let_def vec_def)
  show "\<bar>vz (assignedTarget rs base points i) - pz (points ! (i mod length points))\<bar>
           \<le> real (i div length points) * 0.025"
    using c [OF dr [rule_format, of "base + 3 * i + 2"], of "i div length points"]
    by (simp add: assignedTarget_def Let_def vec_def)
qed

lemma updateExplosion_target:
  "k < length (particles s) \<Longrightarrow>
     target (particles (updateExplosion dt s) ! k) = target (particles s ! k)"
  by (simp add: updateExplosion_def Let_def)

lemma morph_tick_far:
  assumes "activeMode u = MORPHING" "k < length (particles u)"
    and "0.1 < distanceToTarget (particles u ! k)"
  shows "current (particles (update rs now dt u) ! k)
           = addV (current (particles u ! k))
               (multiplyScalar (subV (target (particles u ! k)) (current (particles u ! k)))
                  (PARTICLE_MORPH_SPEED * speed (particles u ! k)))"
proof -
  from morph_tick(3) [OF assms(1,2), of rs now dt] obtain d where
    "particles (update rs now dt u) ! k = interpolateParticle rs d (particles u ! k)"
    by blast
  then show ?thesis
    using assms(3) by (simp add: interpolateParticle_def distanceToTarget_def Let_def)
qed

lemma explode_setTarget_oneParticleSystem:
  "particles (snd (setTarget rs [originPoint] (explode oneParticleSystem)))
     = [oneParticle\<lparr>velocity := vec 5 0 0, target := vec 0 0 0\<rparr>]"
  by (simp add: setTarget_unfold Let_def pointAt_def explode_oneParticleSystem originPoint_def)

text \<open>
  Claim C4 (cancellation), as the code has it. \<open>explode\<close>, \<open>disperse\<close>,
  \<open>orbitAroundBounds\<close> and \<open>setIdleState\<close> win at once whatever they interrupt: the
  next \<open>update\<close> runs the routine of the mode just requested, whose own timer starts
  at 0. \<open>setTarget\<close> called while the engine is exploding does not cancel the
  explosion. With draws in \<open>[0, 1)\<close> and a non-empty list of points it gives every
  particle a new target, an anchor point displaced on each axis by at most 0.025 times
  the layer index, clears the idle flag, and leaves the exploding flag, the explosion
  timer and every position and velocity as they were. The next tick is an explosion
  tick that keeps the new targets; the flag clears once the explosion time reaches
  \<open>EXPLOSION_DURATION\<close>, and from then on, if the engine is neither dispersing nor
  orbiting, a tick moves each particle farther than 0.1 from its target toward the
  target that \<open>setTarget\<close> gave it, by the fraction \<open>PARTICLE_MORPH_SPEED * speed\<close>
  of what remains.
\<close>

theorem setTarget_while_exploding:
  assumes ex: "isExploding s" and pts: "points \<noteq> []"
    and dr: "\<forall>j. 0 \<le> rs j \<and> rs j < 1" and k: "k < length (particles s)"
  shows "isExploding (snd (setTarget rs points s))
       \<and> explosionTime (snd (setTarget rs points s)) = explosionTime s
       \<and> \<not> isIdle (snd (setTarget rs points s))
       \<and> length (particles (snd (setTarget rs points s))) = length (particles s)
       \<and> current (particles (snd (setTarget rs points s)) ! k) = current (particles s ! k)
       \<and> velocity (particles (snd (setTarget rs points s)) ! k) = velocity (particles s ! k)
       \<and> (\<exists>i < length (particles s).
            target (particles (snd (setTarget rs points s)) ! k)
              = assignedTarget rs (length (particles s) - 1) points i
          \<and> \<bar>vx (target (particles (snd (setTarget rs points s)) ! k))
               - px (points ! (i mod length points))\<bar> \<le> real (i div length points) * 0.025
          \<and> \<bar>vy (target (particles (snd (setTarget rs points s)) ! k))
               - py (points ! (i mod length points))\<bar> \<le> real (i div length points) * 0.025
          \<and> \<bar>vz (target (particles (snd (setTarget rs points s)) ! k))
               - pz (points ! (i mod length points))\<bar> \<le> real (i div length points) * 0.025)
       \<and> update rs1 now1 dt (snd (setTarget rs points s))
           = updateExplosion dt (snd (setTarget rs points s))
       \<and> explosionTime (update rs1 now1 dt (snd (setTarget rs points s))) = explosionTime s + dt
       \<and> target (particles (update rs1 now1 dt (snd (setTarget rs points s))) ! k)
           = target (particles (snd (setTarget rs points s)) ! k)
       \<and> (isExploding (update rs1 now1 dt (snd (setTarget rs points s)))
            \<longleftrightarrow> explosionTime s + dt < EXPLOSION_DURATION)
       \<and> (EXPLOSION_DURATION \<le> explosionTime s + dt \<and> \<not> isDispersing s \<and> \<not> isOrbiting s \<longrightarrow>
            update rs2 now2 dt2 (update rs1 now1 dt (snd (setTarget rs points s)))
              = interpolateToTarget rs2 dt2 (update rs1 now1 dt (snd (setTarget rs points s)))
          \<and> (0.1 < distanceToTarget (particles (update rs1 now1 dt (snd (setTarget rs points s))) ! k) \<longrightarrow>
               current (particles (update rs2 now2 dt2
                  (update rs1 now1 dt (snd (setTarget rs points s)))) ! k)
                 = addV (current (particles (update rs1 now1 dt (snd (setTarget rs points s))) ! k))
                     (multiplyScalar
                        (subV (target (particles (snd (setTarget rs points s)) ! k))
                              (current (particles (update rs1 now1 dt (snd (setTarget rs points s))) ! k)))
                        (PARTICLE_MORPH_SPEED
                           * speed (particles (update rs1 now1 dt (snd (setTarget rs points s))) ! k)))))
       \<and> update rs3 now3 dt3 (explode q) = updateExplosion dt3 (explode q)
       \<and> explosionTime (explode q) = 0
       \<and> update rs3 now3 dt3 (disperse rs4 q) = updateDispersion dt3 (disperse rs4 q)
       \<and> dispersionTime (disperse rs4 q) = 0
       \<and> update rs3 now3 dt3 (setIdleState q) = updateIdleState now3 dt3 (setIdleState q)
       \<and> (\<forall>q'. orbitAroundBounds rs4 b q = Some q' \<longrightarrow>
            update rs3 now3 dt3 q' = updateOrbiting rs3 dt3 q' \<and> orbitTime q' = 0)"
proof -
  let ?s' = "snd (setTarget rs points s)"
  let ?u = "update rs1 now1 dt ?s'"
  have a1: "isExploding ?s'" "explosionTime ?s' = explosionTime s" "\<not> isIdle ?s'"
    "length (particles ?s') = length (particles s)"
    using ex by (simp_all add: setTarget_fields setTarget_length)
  have a2: "current (particles ?s' ! k) = current (particles s ! k)"
    "velocity (particles ?s' ! k) = velocity (particles s ! k)"
    using k by (simp_all add: setTarget_nth)
  from setTarget_target [OF dr pts k] obtain i where
    i: "i < length (particles s)"
      "target (particles ?s' ! k) = assignedTarget rs (length (particles s) - 1) points i"
    by blast
  note nr = assignedTarget_near [OF dr, of "length (particles s) - 1" points i]
  have a3: "\<exists>i < length (particles s).
            target (particles ?s' ! k) = assignedTarget rs (length (particles s) - 1) points i
          \<and> \<bar>vx (target (particles ?s' ! k)) - px (points ! (i mod length points))\<bar>
               \<le> real (i div length points) * 0.025
          \<and> \<bar>vy (target (particles ?s' ! k)) - py (points ! (i mod length points))\<bar>
               \<le> real (i div length points) * 0.025
          \<and> \<bar>vz (target (particles ?s' ! k)) - pz (points ! (i mod length points))\<bar>
               \<le> real (i div length points) * 0.025"
    unfolding i(2) using i(1) nr by blast
  have u: "?u = updateExplosion dt ?s'"
    using a1(1) by (simp add: update_def)
  have k': "k < length (particles ?s')"
    using k a1(4) by simp
  have a4: "explosionTime ?u = explosionTime s + dt"
    "target (particles ?u ! k) = target (particles ?s' ! k)"
    "isExploding ?u \<longleftrightarrow> explosionTime s + dt < EXPLOSION_DURATION"
    using a1 k' by (simp_all add: u updateExplosion_fields updateExplosion_target)
  have a5: "update rs2 now2 dt2 ?u = interpolateToTarget rs2 dt2 ?u
          \<and> (0.1 < distanceToTarget (particles ?u ! k) \<longrightarrow>
               current (particles (update rs2 now2 dt2 ?u) ! k)
                 = addV (current (particles ?u ! k))
                     (multiplyScalar (subV (target (particles ?s' ! k)) (current (particles ?u ! k)))
                        (PARTICLE_MORPH_SPEED * speed (particles ?u ! k))))"
    if "EXPLOSION_DURATION \<le> explosionTime s + dt \<and> \<not> isDispersing s \<and> \<not> isOrbiting s"
  proof -
    have m: "activeMode ?u = MORPHING"
      using that a1 by (simp add: activeMode_MORPHING u updateExplosion_fields setTarget_fields)
    have ku: "k < length (particles ?u)"
      using k' by (simp add: u updateExplosion_particles)
    have "update rs2 now2 dt2 ?u = interpolateToTarget rs2 dt2 ?u"
      using m by (simp add: update_def activeMode_MORPHING)
    moreover have "current (particles (update rs2 now2 dt2 ?u) ! k)
                 = addV (current (particles ?u ! k))
                     (multiplyScalar (subV (target (particles ?s' ! k)) (current (particles ?u ! k)))
                        (PARTICLE_MORPH_SPEED * speed (particles ?u ! k)))"
      if "0.1 < distanceToTarget (particles ?u ! k)"
      using morph_tick_far [OF m ku that, of rs2 now2 dt2] by (simp only: a4(2))
    ultimately show ?thesis by blast
  qed
  have g1: "update rs3 now3 dt3 (explode q) = updateExplosion dt3 (explode q)"
    "explosionTime (explode q) = 0"
    by (simp_all add: update_def explode_fields)
  have g2: "update rs3 now3 dt3 (disperse rs4 q) = updateDispersion dt3 (disperse rs4 q)"
    "dispersionTime (disperse rs4 q) = 0"
    by (simp_all add: update_def disperse_fields)
  have g3: "update rs3 now3 dt3 (setIdleState q) = updateIdleState now3 dt3 (setIdleState q)"
    by (simp add: update_def setIdleState_fields)
  have g4: "update rs3 now3 dt3 q' = updateOrbiting rs3 dt3 q' \<and> orbitTime q' = 0"
    if "orbitAroundBounds rs4 b q = Some q'" for q'
    using orbitAroundBounds_fields [OF that] by (simp add: update_def)
  show ?thesis
    using a1 a2 a3 u a4 a5 g1 g2 g3 g4 by (intro conjI allI impI) blast+
qed

theorem setTarget_while_exploding_witness:
  "isExploding (explode oneParticleSystem)
   \<and> [originPoint] \<noteq> []
   \<and> 0 \<le> halfDraws 0 \<and> halfDraws 0 < 1
   \<and> 0 < length (particles (explode oneParticleSystem))
   \<and> EXPLOSION_DURATION \<le> explosionTime (explode oneParticleSystem) + 1 / 2
   \<and> \<not> isDispersing (explode oneParticleSystem)
   \<and> \<not> isOrbiting (explode oneParticleSystem)
   \<and> isExploding (snd (setTarget halfDraws [originPoint] (explode oneParticleSystem)))
   \<and> explosionTime (snd (setTarget halfDraws [originPoint] (explode oneParticleSystem))) = 0
   \<and> current (particles (snd (setTarget halfDraws [originPoint] (explode oneParticleSystem))) ! 0)
        = vec 1 0 0
   \<and> velocity (particles (snd (setTarget halfDraws [originPoint] (explode oneParticleSystem))) ! 0)
        = vec 5 0 0
   \<and> target (particles (snd (setTarget halfDraws [originPoint] (explode oneParticleSystem))) ! 0)
        = vec 0 0 0
   \<and> explosionTime (update halfDraws zeroClock (1 / 2)
        (snd (setTarget halfDraws [originPoint] (explode oneParticleSystem)))) = 1 / 2
   \<and> \<not> isExploding (update halfDraws zeroClock (1 / 2)
        (snd (setTarget halfDraws [originPoint] (explode oneParticleSystem))))
   \<and> 0.1 < distanceToTarget (particles (update halfDraws zeroClock (1 / 2)
        (snd (setTarget halfDraws [originPoint] (explode oneParticleSystem)))) ! 0)
   \<and> current (particles (update halfDraws zeroClock (1 / 60) (update halfDraws zeroClock (1 / 2)
        (snd (setTarget halfDraws [originPoint] (explode oneParticleSystem))))) ! 0)
        = vec (23 / 25) 0 0
   \<and> orbitAroundBounds halfDraws textBox (projr (newParticleSystem halfDraws PARTICLE_COUNT True))
        = Some (the (orbitAroundBounds halfDraws textBox
             (projr (newParticleSystem halfDraws PARTICLE_COUNT True))))
   \<and> update halfDraws zeroClock (1 / 60) (the (orbitAroundBounds halfDraws textBox
        (projr (newParticleSystem halfDraws PARTICLE_COUNT True))))
      = updateOrbiting halfDraws (1 / 60) (the (orbitAroundBounds halfDraws textBox
        (projr (newParticleSystem halfDraws PARTICLE_COUNT True))))"
proof -
  let ?s = "explode oneParticleSystem"
  let ?s' = "snd (setTarget halfDraws [originPoint] ?s)"
  let ?u = "update halfDraws zeroClock (1 / 2) ?s'"
  let ?q = "projr (newParticleSystem halfDraws PARTICLE_COUNT True)"
  have h: "isExploding ?s"
    by (simp add: explode_fields)
  have p: "[originPoint] \<noteq> []"
    by simp
  have dr: "\<forall>j. 0 \<le> halfDraws j \<and> halfDraws j < 1"
    by (simp add: halfDraws_def)
  have k: "0 < length (particles ?s)"
    by (simp add: explode_oneParticleSystem)
  have f: "explosionTime ?s = 0" "\<not> isDispersing ?s" "\<not> isOrbiting ?s"
    by (simp_all add: explode_fields oneParticleSystem_def)
  have d: "EXPLOSION_DURATION \<le> explosionTime ?s + 1 / 2"
    by (simp add: f EXPLOSION_DURATION_def)
  have o: "orbitAroundBounds halfDraws textBox ?q = Some (the (orbitAroundBounds halfDraws textBox ?q))"
    by (rule orbitAroundBounds_Some)
      (simp add: newParticleSystem_def initializeParticles_length PARTICLE_COUNT_def)
  note t = setTarget_while_exploding [OF h p dr k,
      of halfDraws zeroClock "1 / 2" halfDraws zeroClock "1 / 60" halfDraws zeroClock "1 / 60"
         ?q halfDraws textBox]
  from t have a1: "isExploding ?s'" and a2: "explosionTime ?s' = explosionTime ?s"
    by blast+
  from t have "current (particles ?s' ! 0) = current (particles ?s ! 0)"
    and "velocity (particles ?s' ! 0) = velocity (particles ?s ! 0)"
    by blast+
  then have a3: "current (particles ?s' ! 0) = vec 1 0 0" "velocity (particles ?s' ! 0) = vec 5 0 0"
    by (simp_all add: explode_oneParticleSystem oneParticle_def)
  from t have "\<exists>i < length (particles ?s).
      target (particles ?s' ! 0) = assignedTarget halfDraws (length (particles ?s) - 1) [originPoint] i"
    by blast
  then have a4: "target (particles ?s' ! 0) = vec 0 0 0"
    by (simp add: explode_oneParticleSystem assignedTarget_def originPoint_def)
  from t have "explosionTime ?u = explosionTime ?s + 1 / 2"
    by blast
  then have a5: "explosionTime ?u = 1 / 2"
    by (simp add: f)
  from t have "isExploding ?u \<longleftrightarrow> explosionTime ?s + 1 / 2 < EXPLOSION_DURATION"
    by blast
  then have a6: "\<not> isExploding ?u"
    using d by simp
  from t have ue: "?u = updateExplosion (1 / 2) ?s'"
    by blast
  have pu: "particles ?u = [oneParticle\<lparr>velocity := vec 5 0 0, target := vec 0 0 0\<rparr>]"
    by (simp add: ue updateExplosion_def Let_def explode_setTarget_oneParticleSystem f
        setTarget_fields decayFactor_def EXPLOSION_DURATION_def oneParticle_def addV_def
        multiplyScalar_def vec_def)
  have a7: "0.1 < distanceToTarget (particles ?u ! 0)"
    by (simp add: pu distanceToTarget_def oneParticle_def subV_def vec_def lengthV_def)
  from t d f a7 have "current (particles (update halfDraws zeroClock (1 / 60) ?u) ! 0)
      = addV (current (particles ?u ! 0))
          (multiplyScalar (subV (target (particles ?s' ! 0)) (current (particles ?u ! 0)))
             (PARTICLE_MORPH_SPEED * speed (particles ?u ! 0)))"
    by blast
  then have a8: "current (particles (update halfDraws zeroClock (1 / 60) ?u) ! 0) = vec (23 / 25) 0 0"
    by (simp add: a4 pu oneParticle_def PARTICLE_MORPH_SPEED_def addV_def subV_def
        multiplyScalar_def vec_def)
  from t o have a9: "update halfDraws zeroClock (1 / 60) (the (orbitAroundBounds halfDraws textBox ?q))
      = updateOrbiting halfDraws (1 / 60) (the (orbitAroundBounds halfDraws textBox ?q))"
    by blast
  have dr0: "0 \<le> halfDraws 0 \<and> halfDraws 0 < 1"
    using dr by blast
  show ?thesis
    using h p dr0 k d f(2,3) a1 a2 f(1) a3 a4 a5 a6 a7 a8 o a9 by simp
qed

text \<open>
  The claim as stated fails: after \<open>explode\<close> and then \<open>setTarget\<close> with the origin
  as the only anchor point, the particle at \<open>(1, 0, 0)\<close> has the origin as its
  target, yet the next tick of 0.1 s is an explosion tick that carries it outward to
  \<open>(1.4, 0, 0)\<close> and keeps the exploding flag set; a morphing tick would have
  moved it to \<open>(0.92, 0, 0)\<close>.
\<close>

theorem setTarget_while_exploding_counterexample:
  "isExploding (snd (setTarget halfDraws [originPoint] (explode oneParticleSystem)))
   \<and> target (particles (snd (setTarget halfDraws [originPoint] (explode oneParticleSystem))) ! 0)
        = vec 0 0 0
   \<and> current (particles (snd (setTarget halfDraws [originPoint] (explode oneParticleSystem))) ! 0)
        = vec 1 0 0
   \<and> isExploding (update halfDraws zeroClock (1 / 10)
        (snd (setTarget halfDraws [originPoint] (explode oneParticleSystem))))
   \<and> current (particles (update halfDraws zeroClock (1 / 10)
        (snd (setTarget halfDraws [originPoint] (explode oneParticleSystem)))) ! 0) = vec (7 / 5) 0 0
   \<and> current (particles (interpolateToTarget halfDraws (1 / 10)
        (snd (setTarget halfDraws [originPoint] (explode oneParticleSystem)))) ! 0) = vec (23 / 25) 0 0"
  by (simp add: setTarget_unfold Let_def pointAt_def oneParticleSystem_def oneParticle_def explode_def
     originPoint_def update_def updateExplosion_def decayFactor_def EXPLOSION_DURATION_def
     vec_def normalizeV_def lengthV_def multiplyScalar_def addV_def subV_def interpolateToTarget_def
     interpolateParticle_def PARTICLE_MORPH_SPEED_def)

text \<open>
  Claim C6 (morph convergence), as the code has it. A non-empty anchor set is installed
  by \<open>setTarget\<close> on an engine that is not exploding, dispersing or orbiting at that
  moment (a newly constructed one, for instance), whose speed multipliers lie in
  \<open>[0.5, 1.5]\<close> as construction makes them; then \<open>update\<close> is called again and again
  with the same \<open>dt\<close> and random draws in \<open>[0, 1)\<close>. The call raises nothing, the
  engine stays in morphing mode and the targets stay fixed; for every particle, a tick
  that starts farther than 0.1 from the target does not increase the distance, and once
  a tick starts within 0.1 the distance stays at most \<open>0.1 + 0.06 * sqrt 3\<close> (the
  threshold plus the largest jitter step) at every later tick. \<open>setTarget\<close> does not
  establish the condition on the flags itself, and without it the claim fails, as the
  counterexample shows.
\<close>

theorem morph_convergence:
  assumes fl: "\<not> isExploding s0" "\<not> isDispersing s0" "\<not> isOrbiting s0"
    and pts: "points \<noteq> []"
    and sp: "\<forall>p \<in> set (particles s0). 1 / 2 \<le> speed p \<and> speed p \<le> 3 / 2"
    and dr: "\<forall>n k. 0 \<le> rss n k \<and> rss n k < 1"
    and i: "i < length (particles s0)"
  shows "fst (setTarget rs0 points s0) = None
       \<and> activeMode (ticks rss nows dt n (snd (setTarget rs0 points s0))) = MORPHING
       \<and> target (particles (ticks rss nows dt n (snd (setTarget rs0 points s0))) ! i)
           = target (particles (snd (setTarget rs0 points s0)) ! i)
       \<and> (0.1 < distanceToTarget (particles (ticks rss nows dt n (snd (setTarget rs0 points s0))) ! i) \<longrightarrow>
            distanceToTarget (particles (ticks rss nows dt (Suc n) (snd (setTarget rs0 points s0))) ! i)
              \<le> distanceToTarget (particles (ticks rss nows dt n (snd (setTarget rs0 points s0))) ! i))
       \<and> (distanceToTarget (particles (ticks rss nows dt n (snd (setTarget rs0 points s0))) ! i) \<le> 0.1 \<longrightarrow>
            (\<forall>m \<ge> n. distanceToTarget (particles (ticks rss nows dt m (snd (setTarget rs0 points s0))) ! i)
                        \<le> 0.1 + sqrt 3 * 0.06))"
proof -
  let ?s = "snd (setTarget rs0 points s0)"
  have m: "activeMode ?s = MORPHING"
    using fl by (simp add: activeMode_MORPHING setTarget_fields)
  have l: "i < length (particles ?s)"
    using i by (simp add: setTarget_length)
  have "speed (particles ?s ! i) = speed (particles s0 ! i)"
    using i by (simp add: setTarget_nth)
  then have s: "1 / 2 \<le> speed (particles ?s ! i)" "speed (particles ?s ! i) \<le> 3 / 2"
    using sp i by simp_all
  note tm = ticks_morph [OF m, of rss nows dt n]
  note st = morph_step [OF m l s dr, of nows dt n]
  have stay: "distanceToTarget (particles (ticks rss nows dt k ?s) ! i) \<le> 0.1 + sqrt 3 * 0.06"
    if "distanceToTarget (particles (ticks rss nows dt n ?s) ! i) \<le> 0.1" "n \<le> k" for k
  proof -
    have "(0::real) \<le> sqrt 3 * 0.06" by simp
    with that(1) have "distanceToTarget (particles (ticks rss nows dt n ?s) ! i) \<le> 0.1 + sqrt 3 * 0.06"
      by linarith
    from morph_stays [OF m l s dr this, of "k - n"] that(2) show ?thesis by simp
  qed
  show ?thesis
    using setTarget_no_error [OF pts, of rs0 s0] tm l st stay by blast
qed

lemma setTarget_oneParticleSystem:
  "particles (snd (setTarget rs [pt] oneParticleSystem))
     = [oneParticle\<lparr>target := vec (px pt) (py pt) (pz pt)\<rparr>]"
  by (simp add: setTarget_unfold Let_def pointAt_def oneParticleSystem_def)

theorem morph_convergence_witness:
  "\<not> isExploding oneParticleSystem \<and> \<not> isDispersing oneParticleSystem
   \<and> \<not> isOrbiting oneParticleSystem
   \<and> [originPoint] \<noteq> [] \<and> [nearPoint] \<noteq> []
   \<and> particles oneParticleSystem = [oneParticle]
   \<and> 1 / 2 \<le> speed oneParticle \<and> speed oneParticle \<le> 3 / 2
   \<and> 0 \<le> sameDraws 0 0 \<and> sameDraws 0 0 < 1
   \<and> fst (setTarget halfDraws [originPoint] oneParticleSystem) = None
   \<and> distanceToTarget (particles (ticks sameDraws sameClock (1 / 60) 0
        (snd (setTarget halfDraws [originPoint] oneParticleSystem))) ! 0) = 1
   \<and> distanceToTarget (particles (ticks sameDraws sameClock (1 / 60) (Suc 0)
        (snd (setTarget halfDraws [originPoint] oneParticleSystem))) ! 0) \<le> 1
   \<and> distanceToTarget (particles (ticks sameDraws sameClock (1 / 60) 0
        (snd (setTarget halfDraws [nearPoint] oneParticleSystem))) ! 0) = 0
   \<and> distanceToTarget (particles (ticks sameDraws sameClock (1 / 60) 2
        (snd (setTarget halfDraws [nearPoint] oneParticleSystem))) ! 0) \<le> 0.1 + sqrt 3 * 0.06"
proof -
  have fl: "\<not> isExploding oneParticleSystem" "\<not> isDispersing oneParticleSystem"
    "\<not> isOrbiting oneParticleSystem"
    by (simp_all add: oneParticleSystem_def)
  have ps: "particles oneParticleSystem = [oneParticle]"
    by (simp add: oneParticleSystem_def)
  have s1: "1 / 2 \<le> speed oneParticle \<and> speed oneParticle \<le> 3 / 2"
    by (simp add: oneParticle_def)
  then have sp: "\<forall>p \<in> set (particles oneParticleSystem). 1 / 2 \<le> speed p \<and> speed p \<le> 3 / 2"
    by (simp add: ps)
  have dr: "\<forall>n k. 0 \<le> sameDraws n k \<and> sameDraws n k < 1"
    by (simp add: sameDraws_def)
  have i: "0 < length (particles oneParticleSystem)"
    by (simp add: ps)
  have p1: "[originPoint] \<noteq> []" and p2: "[nearPoint] \<noteq> []"
    by simp_all
  note far = morph_convergence [OF fl p1 sp dr i, of halfDraws sameClock "1 / 60" 0]
  note near = morph_convergence [OF fl p2 sp dr i, of halfDraws sameClock "1 / 60" 0]
  have d0: "distanceToTarget (particles (ticks sameDraws sameClock (1 / 60) 0
        (snd (setTarget halfDraws [originPoint] oneParticleSystem))) ! 0) = 1"
    by (simp add: setTarget_oneParticleSystem distanceToTarget_def oneParticle_def originPoint_def
        subV_def vec_def lengthV_def)
  have e0: "distanceToTarget (particles (ticks sameDraws sameClock (1 / 60) 0
        (snd (setTarget halfDraws [nearPoint] oneParticleSystem))) ! 0) = 0"
    by (simp add: setTarget_oneParticleSystem distanceToTarget_def oneParticle_def nearPoint_def
        subV_def vec_def lengthV_def)
  from far have "0.1 < distanceToTarget (particles (ticks sameDraws sameClock (1 / 60) 0
        (snd (setTarget halfDraws [originPoint] oneParticleSystem))) ! 0) \<longrightarrow>
      distanceToTarget (particles (ticks sameDraws sameClock (1 / 60) (Suc 0)
        (snd (setTarget halfDraws [originPoint] oneParticleSystem))) ! 0)
      \<le> distanceToTarget (particles (ticks sameDraws sameClock (1 / 60) 0
        (snd (setTarget halfDraws [originPoint] oneParticleSystem))) ! 0)"
    by blast
  then have d1: "distanceToTarget (particles (ticks sameDraws sameClock (1 / 60) (Suc 0)
        (snd (setTarget halfDraws [originPoint] oneParticleSystem))) ! 0) \<le> 1"
    using d0 by linarith
  from near have "distanceToTarget (particles (ticks sameDraws sameClock (1 / 60) 0
        (snd (setTarget halfDraws [nearPoint] oneParticleSystem))) ! 0) \<le> 0.1 \<longrightarrow>
      (\<forall>m \<ge> 0. distanceToTarget (particles (ticks sameDraws sameClock (1 / 60) m
        (snd (setTarget halfDraws [nearPoint] oneParticleSystem))) ! 0) \<le> 0.1 + sqrt 3 * 0.06)"
    by blast
  then have "\<forall>m \<ge> 0. distanceToTarget (particles (ticks sameDraws sameClock (1 / 60) m
        (snd (setTarget halfDraws [nearPoint] oneParticleSystem))) ! 0) \<le> 0.1 + sqrt 3 * 0.06"
    using e0 by simp
  then have e2: "distanceToTarget (particles (ticks sameDraws sameClock (1 / 60) 2
        (snd (setTarget halfDraws [nearPoint] oneParticleSystem))) ! 0) \<le> 0.1 + sqrt 3 * 0.06"
    by blast
  from far have ok: "fst (setTarget halfDraws [originPoint] oneParticleSystem) = None"
    by blast
  show ?thesis
    using fl p1 p2 ps s1 dr ok d0 d1 e0 e2 by blast
qed

text \<open>
  The claim as stated fails when \<open>setTarget\<close> is called on an exploding engine: the
  one-particle engine is exploded, the anchor at the origin is installed, and one tick
  of 0.1 s, still in exploding mode, takes the particle from distance 1 to distance 7/5
  from its target.
\<close>

theorem morph_convergence_counterexample:
  "[originPoint] \<noteq> []
   \<and> fst (setTarget halfDraws [originPoint] (explode oneParticleSystem)) = None
   \<and> isExploding (snd (setTarget halfDraws [originPoint] (explode oneParticleSystem)))
   \<and> distanceToTarget (particles (ticks sameDraws sameClock (1 / 10) 0
        (snd (setTarget halfDraws [originPoint] (explode oneParticleSystem)))) ! 0) = 1
   \<and> distanceToTarget (particles (ticks sameDraws sameClock (1 / 10) (Suc 0)
        (snd (setTarget halfDraws [originPoint] (explode oneParticleSystem)))) ! 0) = 7 / 5"
proof -
  let ?s = "snd (setTarget halfDraws [originPoint] (explode oneParticleSystem))"
  have ok: "fst (setTarget halfDraws [originPoint] (explode oneParticleSystem)) = None"
    by (simp add: setTarget_no_error)
  have ex: "isExploding ?s"
    by (simp add: setTarget_fields explode_fields)
  have t: "explosionTime ?s = 0"
    by (simp add: setTarget_fields explode_fields)
  have ps: "particles ?s = [oneParticle\<lparr>velocity := vec 5 0 0, target := vec 0 0 0\<rparr>]"
    by (simp add: setTarget_unfold Let_def pointAt_def explode_oneParticleSystem explode_fields
        originPoint_def)
  have d0: "distanceToTarget (particles (ticks sameDraws sameClock (1 / 10) 0 ?s) ! 0) = 1"
    by (simp add: ps distanceToTarget_def oneParticle_def subV_def vec_def lengthV_def)
  have "sqrt ((7 / 5)\<^sup>2) = 7 / 5"
    by (simp only: real_sqrt_abs)
  then have sq: "sqrt (49 / 25) = 7 / 5"
    by (simp add: power2_eq_square)
  have "current (particles (update (sameDraws 0) (sameClock 0) (1 / 10) ?s) ! 0) = vec (7 / 5) 0 0"
    by (simp add: update_def ex updateExplosion_def Let_def t ps decayFactor_def
        EXPLOSION_DURATION_def oneParticle_def addV_def multiplyScalar_def vec_def)
  moreover have "target (particles (update (sameDraws 0) (sameClock 0) (1 / 10) ?s) ! 0) = vec 0 0 0"
    by (simp add: update_def ex updateExplosion_def Let_def t ps decayFactor_def
        EXPLOSION_DURATION_def oneParticle_def vec_def)
  ultimately have d1: "distanceToTarget (particles (ticks sameDraws sameClock (1 / 10) (Suc 0) ?s) ! 0) = 7 / 5"
    by (simp add: distanceToTarget_def subV_def vec_def lengthV_def sq power2_eq_square)
  show ?thesis
    using ok ex d0 d1 by simp
qed

end
